theory Spec2Isabelle
  imports Complex_Main "HOL-Library.Multiset" "HOL-Library.Monad_Syntax"
begin

section \<open>Data model\<close>

text \<open>
  The job-tracking service of the video translation product: one table of translation
  jobs behind six remote procedures. The embedding follows the handlers, the zod
  schemas of \<^verbatim>\<open>schema.ts\<close> and the table declaration of \<^verbatim>\<open>db/schema.ts\<close>.

  \<^item> A language code is one of the twelve literals of \<^verbatim>\<open>supportedLanguagesSchema\<close>; the
    TypeScript literal union becomes a datatype, and \<open>language_code\<close> gives the string
    each literal stands for.
  \<^item> Timestamps are instants counted in whole clock units from the epoch (naturals).
    The code reads two clocks: the database's \<^verbatim>\<open>now()\<close> behind \<^verbatim>\<open>defaultNow()\<close> and
    the server's \<^verbatim>\<open>new Date()\<close> / \<^verbatim>\<open>Date.now()\<close>. Every reading is an explicit argument
    of the operation that takes it.
  \<^item> \<^verbatim>\<open>z.number()\<close> accepts every JavaScript number but \<^verbatim>\<open>NaN\<close>: a finite double, here a
    rational, or one of the two infinities. The \<^verbatim>\<open>id\<close> column is \<^verbatim>\<open>serial\<close>, a 32-bit
    integer.
  \<^item> Every handler runs in \<^verbatim>\<open>try { ... } catch (error) { ...; throw error; }\<close>: what the
    database or the file system raises is logged and rethrown. A handler's result is
    therefore a sum, \<open>Inl\<close> the failure. The database refuses a statement, and changes
    nothing, when a text parameter holds the character U+0000, when an id parameter is
    not a 32-bit integer, or when the id sequence is exhausted. What the file system
    refuses is given by the runtime the handler runs in. Faults that do not depend on
    the request (a lost connection, a full disk) are outside the model.
\<close>

datatype SupportedLanguage =
  Lang_en | Lang_es | Lang_fr | Lang_de | Lang_it | Lang_pt
  | Lang_ru | Lang_ja | Lang_ko | Lang_zh | Lang_ar | Lang_hi

datatype TranslationStatus = Pending | Processing | Completed | Failed

type_synonym timestamp = nat

datatype number = Finite rat | PositiveInfinity | NegativeInfinity

record TranslationJob =
  job_id :: int
  original_filename :: string
  original_file_path :: string
  detected_language :: "SupportedLanguage option"
  target_language :: SupportedLanguage
  status :: TranslationStatus
  translated_file_path :: "string option"
  transcript :: "string option"
  translated_transcript :: "string option"
  error_message :: "string option"
  created_at :: timestamp
  updated_at :: timestamp

text \<open>The members of \<^verbatim>\<open>z.enum([...])\<close>, in the order of the source.\<close>

definition supportedLanguages :: "SupportedLanguage list" where
  "supportedLanguages =
     [Lang_en, Lang_es, Lang_fr, Lang_de, Lang_it, Lang_pt,
      Lang_ru, Lang_ja, Lang_ko, Lang_zh, Lang_ar, Lang_hi]"

fun language_code :: "SupportedLanguage \<Rightarrow> string" where
  "language_code Lang_en = ''en''"
| "language_code Lang_es = ''es''"
| "language_code Lang_fr = ''fr''"
| "language_code Lang_de = ''de''"
| "language_code Lang_it = ''it''"
| "language_code Lang_pt = ''pt''"
| "language_code Lang_ru = ''ru''"
| "language_code Lang_ja = ''ja''"
| "language_code Lang_ko = ''ko''"
| "language_code Lang_zh = ''zh''"
| "language_code Lang_ar = ''ar''"
| "language_code Lang_hi = ''hi''"

fun status_name :: "TranslationStatus \<Rightarrow> string" where
  "status_name Pending = ''pending''"
| "status_name Processing = ''processing''"
| "status_name Completed = ''completed''"
| "status_name Failed = ''failed''"

definition translationStatuses :: "TranslationStatus list" where
  "translationStatuses = [Pending, Processing, Completed, Failed]"

subsection \<open>Typed inputs of the handlers\<close>

record CreateTranslationJobInput =
  c_original_filename :: string
  c_original_file_path :: string
  c_target_language :: SupportedLanguage

text \<open>
  In the update input an optional key is \<open>None\<close> when the key is omitted. The four
  text fields are \<^verbatim>\<open>.nullable().optional()\<close>: \<open>Some None\<close> is an explicit null and
  \<open>Some (Some s)\<close> a string. \<^verbatim>\<open>detected_language\<close> and \<^verbatim>\<open>status\<close> are \<^verbatim>\<open>.optional()\<close>
  only.
\<close>

record UpdateTranslationJobInput =
  u_id :: number
  u_detected_language :: "SupportedLanguage option"
  u_status :: "TranslationStatus option"
  u_translated_file_path :: "string option option"
  u_transcript :: "string option option"
  u_translated_transcript :: "string option option"
  u_error_message :: "string option option"

record GetTranslationJobInput =
  g_id :: number

record UploadVideoInput =
  v_filename :: string
  v_file_data :: string
  v_target_language :: SupportedLanguage

section \<open>The table\<close>

text \<open>
  \<open>translation_jobs\<close> lists the rows in the order of their insertion;
  \<open>translation_jobs_id_seq\<close> is the last value the \<^verbatim>\<open>serial\<close> column's sequence gave out.
\<close>

record database =
  translation_jobs :: "TranslationJob list"
  translation_jobs_id_seq :: int

definition empty_database :: database where
  "empty_database = \<lparr>translation_jobs = [], translation_jobs_id_seq = 0\<rparr>"

subsection \<open>What the database refuses\<close>

text \<open>
  What a handler rethrows: the error of the database driver or of the file system.
\<close>

datatype failure = DatabaseError | FileSystemError

text \<open>
  A \<^verbatim>\<open>text\<close> value cannot hold the character U+0000; a statement with such a parameter
  is refused when its parameters are bound, before any row is read or written.
\<close>

definition text_accepted :: "string \<Rightarrow> bool" where
  "text_accepted s = (CHR 0x00 \<notin> set s)"

definition nullable_text_accepted :: "string option \<Rightarrow> bool" where
  "nullable_text_accepted v = (case v of None \<Rightarrow> True | Some s \<Rightarrow> text_accepted s)"

text \<open>
  A number compared with the \<^verbatim>\<open>id\<close> column must be an integer from \<open>-2147483648\<close> to
  \<open>2147483647\<close>; the statement is refused for any other number. \<open>as_int4\<close> gives the
  integer, or \<open>None\<close> where the database refuses.
\<close>

definition as_int4 :: "number \<Rightarrow> int option" where
  "as_int4 n =
     (case n of
        Finite r \<Rightarrow>
          if of_int \<lfloor>r\<rfloor> = r \<and> - 2147483648 \<le> \<lfloor>r\<rfloor> \<and> \<lfloor>r\<rfloor> \<le> 2147483647
          then Some \<lfloor>r\<rfloor> else None
      | _ \<Rightarrow> None)"

subsection \<open>Inserting\<close>

text \<open>
  The values of an \<^verbatim>\<open>INSERT\<close>. A column left out, or given as null, is \<open>None\<close>; the table
  declaration supplies the defaults: the next value of the sequence for \<^verbatim>\<open>id\<close>,
  \<^verbatim>\<open>'pending'\<close> for \<^verbatim>\<open>status\<close>, and the database clock for both \<^verbatim>\<open>created_at\<close> and
  \<^verbatim>\<open>updated_at\<close> (one statement reads \<^verbatim>\<open>now()\<close> once). The insert is refused, and the
  table and the sequence stay as they were, when a text value holds U+0000 or the
  sequence has given out its last value \<open>2147483647\<close>.
\<close>

record NewTranslationJob =
  new_original_filename :: string
  new_original_file_path :: string
  new_target_language :: SupportedLanguage
  new_status :: "TranslationStatus option"
  new_detected_language :: "SupportedLanguage option"
  new_translated_file_path :: "string option"
  new_transcript :: "string option"
  new_translated_transcript :: "string option"
  new_error_message :: "string option"

definition insert_accepted :: "NewTranslationJob \<Rightarrow> database \<Rightarrow> bool" where
  "insert_accepted v d =
     (text_accepted (new_original_filename v)
      \<and> text_accepted (new_original_file_path v)
      \<and> nullable_text_accepted (new_translated_file_path v)
      \<and> nullable_text_accepted (new_transcript v)
      \<and> nullable_text_accepted (new_translated_transcript v)
      \<and> nullable_text_accepted (new_error_message v)
      \<and> translation_jobs_id_seq d < 2147483647)"

definition insert_returning ::
  "timestamp \<Rightarrow> NewTranslationJob \<Rightarrow> database \<Rightarrow> (failure + TranslationJob) \<times> database" where
  "insert_returning db_now v d =
     (if insert_accepted v d then
        (let job = \<lparr>job_id = translation_jobs_id_seq d + 1,
                    original_filename = new_original_filename v,
                    original_file_path = new_original_file_path v,
                    detected_language = new_detected_language v,
                    target_language = new_target_language v,
                    status = (case new_status v of None \<Rightarrow> Pending | Some s \<Rightarrow> s),
                    translated_file_path = new_translated_file_path v,
                    transcript = new_transcript v,
                    translated_transcript = new_translated_transcript v,
                    error_message = new_error_message v,
                    created_at = db_now,
                    updated_at = db_now\<rparr>
         in (Inr job, \<lparr>translation_jobs = translation_jobs d @ [job],
                       translation_jobs_id_seq = translation_jobs_id_seq d + 1\<rparr>))
      else (Inl DatabaseError, d))"

section \<open>Handlers\<close>

subsection \<open>createTranslationJob\<close>

text \<open>
  The handler inserts and returns the row the insert returns; when the insert is
  refused it rethrows.
\<close>

definition createTranslationJob ::
  "timestamp \<Rightarrow> CreateTranslationJobInput \<Rightarrow> database
     \<Rightarrow> (failure + TranslationJob) \<times> database" where
  "createTranslationJob db_now input d =
     insert_returning db_now
       \<lparr>new_original_filename = c_original_filename input,
        new_original_file_path = c_original_file_path input,
        new_target_language = c_target_language input,
        new_status = Some Pending,
        new_detected_language = None,
        new_translated_file_path = None,
        new_transcript = None,
        new_translated_transcript = None,
        new_error_message = None\<rparr> d"

subsection \<open>getTranslationJob\<close>

text \<open>
  \<^verbatim>\<open>select().from(t).where(eq(t.id, id)).limit(1)\<close>, then the first row or null. The
  query is refused, and the handler rethrows, when \<^verbatim>\<open>input.id\<close> is not a 32-bit integer.
\<close>

definition select_where_id :: "int \<Rightarrow> database \<Rightarrow> TranslationJob list" where
  "select_where_id i d = filter (\<lambda>j. job_id j = i) (translation_jobs d)"

definition getTranslationJob ::
  "GetTranslationJobInput \<Rightarrow> database \<Rightarrow> failure + TranslationJob option" where
  "getTranslationJob input d =
     (case as_int4 (g_id input) of
        None \<Rightarrow> Inl DatabaseError
      | Some i \<Rightarrow>
          Inr (case take 1 (select_where_id i d) of
                 [] \<Rightarrow> None
               | job # _ \<Rightarrow> Some job))"

subsection \<open>updateTranslationJob\<close>

text \<open>
  \<^verbatim>\<open>const { id, ...updateData } = input\<close> and \<^verbatim>\<open>.set({ ...updateData, updated_at: new Date() })\<close>:
  a key that is omitted leaves its column alone, a key that is present (null included)
  overwrites it, and \<^verbatim>\<open>updated_at\<close> is always written with the server's clock reading.
\<close>

definition set_columns ::
  "timestamp \<Rightarrow> UpdateTranslationJobInput \<Rightarrow> TranslationJob \<Rightarrow> TranslationJob" where
  "set_columns now input j =
     j\<lparr>detected_language :=
         (case u_detected_language input of None \<Rightarrow> detected_language j | Some l \<Rightarrow> Some l),
       status := (case u_status input of None \<Rightarrow> status j | Some s \<Rightarrow> s),
       translated_file_path :=
         (case u_translated_file_path input of None \<Rightarrow> translated_file_path j | Some v \<Rightarrow> v),
       transcript := (case u_transcript input of None \<Rightarrow> transcript j | Some v \<Rightarrow> v),
       translated_transcript :=
         (case u_translated_transcript input of None \<Rightarrow> translated_transcript j | Some v \<Rightarrow> v),
       error_message := (case u_error_message input of None \<Rightarrow> error_message j | Some v \<Rightarrow> v),
       updated_at := now\<rparr>"

text \<open>
  The text values an update supplies are parameters of its statement: each must be
  free of U+0000. A key that is omitted, or null, supplies no text.
\<close>

definition supplied_text_accepted :: "string option option \<Rightarrow> bool" where
  "supplied_text_accepted v = (case v of None \<Rightarrow> True | Some t \<Rightarrow> nullable_text_accepted t)"

definition update_texts_accepted :: "UpdateTranslationJobInput \<Rightarrow> bool" where
  "update_texts_accepted input =
     (supplied_text_accepted (u_translated_file_path input)
      \<and> supplied_text_accepted (u_transcript input)
      \<and> supplied_text_accepted (u_translated_transcript input)
      \<and> supplied_text_accepted (u_error_message input))"

text \<open>
  \<^verbatim>\<open>UPDATE ... SET ... WHERE id = $1 RETURNING *\<close>: every row with the id is rewritten in
  place and the rewritten rows are returned; the handler answers with the first of them,
  or null when there is none. When the id is not a 32-bit integer or a supplied text
  holds U+0000 the statement is refused, whether or not a row has the id: no row is
  written and the handler rethrows.
\<close>

definition updateTranslationJob ::
  "timestamp \<Rightarrow> UpdateTranslationJobInput \<Rightarrow> database
     \<Rightarrow> (failure + TranslationJob option) \<times> database" where
  "updateTranslationJob now input d =
     (case as_int4 (u_id input) of
        None \<Rightarrow> (Inl DatabaseError, d)
      | Some i \<Rightarrow>
          if update_texts_accepted input then
            (let result = map (set_columns now input) (select_where_id i d);
                 rows = map (\<lambda>j. if job_id j = i then set_columns now input j else j)
                          (translation_jobs d)
             in (Inr (case result of [] \<Rightarrow> None | r # _ \<Rightarrow> Some r),
                 d\<lparr>translation_jobs := rows\<rparr>))
          else (Inl DatabaseError, d))"

subsection \<open>getTranslationJobs\<close>

text \<open>
  \<^verbatim>\<open>select().from(t).orderBy(desc(t.created_at))\<close>. The query names one sort key, and SQL
  leaves the order of rows that agree on every sort key to the database. The handler
  is therefore a relation between the store and the sequences the query may deliver: the
  rows of the table, each once, arranged so that \<^verbatim>\<open>created_at\<close> never increases.
\<close>

definition newest_first :: "TranslationJob list \<Rightarrow> bool" where
  "newest_first js = sorted_wrt (\<lambda>a b. created_at b \<le> created_at a) js"

definition getTranslationJobs :: "database \<Rightarrow> TranslationJob list \<Rightarrow> bool" where
  "getTranslationJobs d jobs = (mset jobs = mset (translation_jobs d) \<and> newest_first jobs)"

text \<open>
  The listing described by the specification, in its words: newest first, and rows with
  equal \<^verbatim>\<open>created_at\<close> in the order of their insertion. A stable insertion sort of the
  rows in insertion order computes it.
\<close>

fun insert_newest_first :: "TranslationJob \<Rightarrow> TranslationJob list \<Rightarrow> TranslationJob list" where
  "insert_newest_first x [] = [x]"
| "insert_newest_first x (y # ys) =
     (if created_at y \<le> created_at x then x # y # ys else y # insert_newest_first x ys)"

definition spec_listAll :: "database \<Rightarrow> TranslationJob list" where
  "spec_listAll d = foldr insert_newest_first (translation_jobs d) []"

subsection \<open>uploadVideo\<close>

text \<open>
  \<^verbatim>\<open>`${timestamp}`\<close> prints \<^verbatim>\<open>Date.now()\<close>, a non-negative integer, in decimal.
\<close>

definition digit_char :: "nat \<Rightarrow> char" where
  "digit_char n = char_of (48 + n)"

fun number_toString :: "nat \<Rightarrow> string" where
  "number_toString n =
     (if n < 10 then [digit_char n]
      else number_toString (n div 10) @ [digit_char (n mod 10)])"

declare number_toString.simps [simp del]

text \<open>
  \<^verbatim>\<open>path.dirname\<close> of a POSIX path, as Node computes it: the path up to the last slash
  that has a name character after it, trailing slashes apart, searching from the second
  character on.
\<close>

definition dirname :: "string \<Rightarrow> string" where
  "dirname p =
     (case p of
        [] \<Rightarrow> ''.''
      | c # rest \<Rightarrow>
          (case dropWhile (\<lambda>x. x \<noteq> CHR ''/'') (dropWhile (\<lambda>x. x = CHR ''/'') (rev rest)) of
             [] \<Rightarrow> if c = CHR ''/'' then ''/'' else ''.''
           | slash # before \<Rightarrow>
               if c = CHR ''/'' \<and> before = [] then ''//'' else c # rev before))"

text \<open>
  The handler runs in a runtime that is not part of the repository. \<open>mkdir\<close> is
  \<^verbatim>\<open>mkdir(_, { recursive: true })\<close> and \<open>writeFile\<close> is \<^verbatim>\<open>writeFile\<close> of \<^verbatim>\<open>fs/promises\<close>, each
  taking the file system to the file system after the call, or to \<open>None\<close> when the call
  throws (a path that names a directory, a path with U+0000, a name that is too long,
  and so on); \<open>from_base64\<close> is the decoder \<^verbatim>\<open>Buffer.from(_, 'base64')\<close>, which does not
  throw. The type \<open>'fs\<close> of file systems is the runtime's own.

  The server's state is the table and the file system. Three more values come from
  outside the handler and are its arguments: \<open>date_now\<close> is what \<^verbatim>\<open>Date.now()\<close> returns,
  \<open>randomId\<close> the token \<^verbatim>\<open>Math.random().toString(36).substring(2, 8)\<close>, and \<open>db_now\<close> the
  database clock.
\<close>

record 'fs runtime =
  mkdir :: "string \<Rightarrow> 'fs \<Rightarrow> 'fs option"
  writeFile :: "string \<Rightarrow> string \<Rightarrow> 'fs \<Rightarrow> 'fs option"
  from_base64 :: "string \<Rightarrow> string"

record 'fs server_state =
  st_db :: database
  st_files :: 'fs

definition upload_path :: "nat \<Rightarrow> string \<Rightarrow> string \<Rightarrow> string" where
  "upload_path date_now randomId filename =
     ''/uploads/videos/'' @ number_toString date_now @ ''_'' @ randomId @ ''_'' @ filename"

text \<open>
  The four steps of the handler. A step that throws ends the call: what the earlier
  steps did stays done (a directory made, a file written), the later steps do not
  happen, and the handler rethrows. No job is inserted unless the file was written.
\<close>

definition uploadVideo ::
  "'fs runtime \<Rightarrow> nat \<Rightarrow> string \<Rightarrow> timestamp \<Rightarrow> UploadVideoInput \<Rightarrow> 'fs server_state
     \<Rightarrow> (failure + TranslationJob) \<times> 'fs server_state" where
  "uploadVideo rt date_now randomId db_now input s =
     (let filePath = upload_path date_now randomId (v_filename input);
          fullPath = ''./storage'' @ filePath
      in case mkdir rt (dirname fullPath) (st_files s) of
           None \<Rightarrow> (Inl FileSystemError, s)
         | Some made \<Rightarrow>
             (let fileBuffer = from_base64 rt (v_file_data input)
              in case writeFile rt fullPath fileBuffer made of
                   None \<Rightarrow> (Inl FileSystemError, \<lparr>st_db = st_db s, st_files = made\<rparr>)
                 | Some written \<Rightarrow>
                     (let (result, d) = insert_returning db_now
                            \<lparr>new_original_filename = v_filename input,
                             new_original_file_path = filePath,
                             new_target_language = v_target_language input,
                             new_status = Some Pending,
                             new_detected_language = None,
                             new_translated_file_path = None,
                             new_transcript = None,
                             new_translated_transcript = None,
                             new_error_message = None\<rparr> (st_db s)
                      in (result, \<lparr>st_db = d, st_files = written\<rparr>))))"

subsection \<open>getSupportedLanguages\<close>

record LanguageOption =
  code :: SupportedLanguage
  name :: string

text \<open>\<^verbatim>\<open>Object.entries(languageNames)\<close>: the pairs in the order the object literal lists them.\<close>

definition languageNames :: "(SupportedLanguage \<times> string) list" where
  "languageNames =
     [(Lang_en, ''English''), (Lang_es, ''Spanish''), (Lang_fr, ''French''),
      (Lang_de, ''German''), (Lang_it, ''Italian''), (Lang_pt, ''Portuguese''),
      (Lang_ru, ''Russian''), (Lang_ja, ''Japanese''), (Lang_ko, ''Korean''),
      (Lang_zh, ''Chinese''), (Lang_ar, ''Arabic''), (Lang_hi, ''Hindi'')]"

text \<open>
  \<^verbatim>\<open>String.prototype.localeCompare\<close> on words of unaccented Latin letters, which is all
  the table holds: the strings are compared letter by letter without regard to case
  (a proper prefix first), and only when that finds no difference does case decide, a
  lower-case letter before its capital. The result is negative, zero or positive.
\<close>

definition is_upper :: "char \<Rightarrow> bool" where
  "is_upper c = (65 \<le> (of_char c :: nat) \<and> (of_char c :: nat) \<le> 90)"

definition base_letter :: "char \<Rightarrow> nat" where
  "base_letter c = (if is_upper c then of_char c + 32 else of_char c)"

definition case_weight :: "char \<Rightarrow> nat" where
  "case_weight c = (if is_upper c then 1 else 0)"

fun compare_by :: "(char \<Rightarrow> nat) \<Rightarrow> string \<Rightarrow> string \<Rightarrow> int" where
  "compare_by w [] [] = 0"
| "compare_by w [] (y # ys) = - 1"
| "compare_by w (x # xs) [] = 1"
| "compare_by w (x # xs) (y # ys) =
     (if w x < w y then - 1 else if w y < w x then 1 else compare_by w xs ys)"

definition localeCompare :: "string \<Rightarrow> string \<Rightarrow> int" where
  "localeCompare a b =
     (let primary = compare_by base_letter a b
      in if primary \<noteq> 0 then primary else compare_by case_weight a b)"

text \<open>
  \<^verbatim>\<open>Array.prototype.sort(compareFn)\<close> is a stable sort: an element moves in front of
  another only when the comparison puts it strictly first.
\<close>

fun sort_insert :: "('a \<Rightarrow> 'a \<Rightarrow> int) \<Rightarrow> 'a \<Rightarrow> 'a list \<Rightarrow> 'a list" where
  "sort_insert cmp x [] = [x]"
| "sort_insert cmp x (y # ys) =
     (if cmp x y \<le> 0 then x # y # ys else y # sort_insert cmp x ys)"

definition array_sort :: "('a \<Rightarrow> 'a \<Rightarrow> int) \<Rightarrow> 'a list \<Rightarrow> 'a list" where
  "array_sort cmp xs = foldr (sort_insert cmp) xs []"

definition getSupportedLanguages :: "LanguageOption list" where
  "getSupportedLanguages =
     (let languages = map (\<lambda>(c, n). \<lparr>code = c, name = n\<rparr>) languageNames
      in array_sort (\<lambda>a b. localeCompare (name a) (name b)) languages)"

section \<open>The request gateway\<close>

text \<open>
  A procedure of \<^verbatim>\<open>appRouter\<close> parses its raw input with the zod schema and calls the
  handler only when the parse succeeds; a failed parse is tRPC's \<^verbatim>\<open>BAD_REQUEST\<close> and the
  handler, hence the store, is never reached. An error the handler rethrows is no
  \<^verbatim>\<open>TRPCError\<close>, and tRPC answers it with \<^verbatim>\<open>INTERNAL_SERVER_ERROR\<close>.

  A raw field is a JSON value, or \<open>JUndefined\<close> for a key that is missing; \<open>JOther\<close>
  stands for the values no schema here accepts (booleans, arrays, objects, \<^verbatim>\<open>NaN\<close>).
\<close>

datatype json = JUndefined | JNull | JString string | JNumber number | JOther

datatype trpc_error = BAD_REQUEST | INTERNAL_SERVER_ERROR

definition rethrown :: "failure + 'a \<Rightarrow> trpc_error + 'a" where
  "rethrown result = (case result of Inl e \<Rightarrow> Inl INTERNAL_SERVER_ERROR | Inr v \<Rightarrow> Inr v)"

definition z_string :: "json \<Rightarrow> string option" where
  "z_string v = (case v of JString s \<Rightarrow> Some s | _ \<Rightarrow> None)"

definition z_string_min :: "nat \<Rightarrow> json \<Rightarrow> string option" where
  "z_string_min n v =
     (case v of JString s \<Rightarrow> if n \<le> length s then Some s else None | _ \<Rightarrow> None)"

definition z_number :: "json \<Rightarrow> number option" where
  "z_number v = (case v of JNumber n \<Rightarrow> Some n | _ \<Rightarrow> None)"

definition z_optional :: "(json \<Rightarrow> 'a option) \<Rightarrow> json \<Rightarrow> 'a option option" where
  "z_optional schema v = (case v of JUndefined \<Rightarrow> Some None | _ \<Rightarrow> map_option Some (schema v))"

definition z_nullable :: "(json \<Rightarrow> 'a option) \<Rightarrow> json \<Rightarrow> 'a option option" where
  "z_nullable schema v = (case v of JNull \<Rightarrow> Some None | _ \<Rightarrow> map_option Some (schema v))"

definition supportedLanguagesSchema :: "json \<Rightarrow> SupportedLanguage option" where
  "supportedLanguagesSchema v =
     (case v of JString s \<Rightarrow> find (\<lambda>l. language_code l = s) supportedLanguages | _ \<Rightarrow> None)"

definition translationStatusSchema :: "json \<Rightarrow> TranslationStatus option" where
  "translationStatusSchema v =
     (case v of JString s \<Rightarrow> find (\<lambda>t. status_name t = s) translationStatuses | _ \<Rightarrow> None)"

record raw_create =
  rc_original_filename :: json
  rc_original_file_path :: json
  rc_target_language :: json

record raw_update =
  ru_id :: json
  ru_detected_language :: json
  ru_status :: json
  ru_translated_file_path :: json
  ru_transcript :: json
  ru_translated_transcript :: json
  ru_error_message :: json

record raw_get =
  rg_id :: json

definition createTranslationJobInputSchema :: "raw_create \<Rightarrow> CreateTranslationJobInput option" where
  "createTranslationJobInputSchema raw =
     do {
       filename \<leftarrow> z_string_min 1 (rc_original_filename raw);
       path \<leftarrow> z_string_min 1 (rc_original_file_path raw);
       lang \<leftarrow> supportedLanguagesSchema (rc_target_language raw);
       Some \<lparr>c_original_filename = filename, c_original_file_path = path,
             c_target_language = lang\<rparr>
     }"

definition updateTranslationJobInputSchema :: "raw_update \<Rightarrow> UpdateTranslationJobInput option" where
  "updateTranslationJobInputSchema raw =
     do {
       i \<leftarrow> z_number (ru_id raw);
       dl \<leftarrow> z_optional supportedLanguagesSchema (ru_detected_language raw);
       st \<leftarrow> z_optional translationStatusSchema (ru_status raw);
       tfp \<leftarrow> z_optional (z_nullable z_string) (ru_translated_file_path raw);
       tr \<leftarrow> z_optional (z_nullable z_string) (ru_transcript raw);
       ttr \<leftarrow> z_optional (z_nullable z_string) (ru_translated_transcript raw);
       em \<leftarrow> z_optional (z_nullable z_string) (ru_error_message raw);
       Some \<lparr>u_id = i, u_detected_language = dl, u_status = st,
             u_translated_file_path = tfp, u_transcript = tr,
             u_translated_transcript = ttr, u_error_message = em\<rparr>
     }"

definition getTranslationJobInputSchema :: "raw_get \<Rightarrow> GetTranslationJobInput option" where
  "getTranslationJobInputSchema raw =
     do { i \<leftarrow> z_number (rg_id raw); Some \<lparr>g_id = i\<rparr> }"

definition appRouter_createTranslationJob ::
  "timestamp \<Rightarrow> raw_create \<Rightarrow> database \<Rightarrow> (trpc_error + TranslationJob) \<times> database" where
  "appRouter_createTranslationJob db_now raw d =
     (case createTranslationJobInputSchema raw of
        None \<Rightarrow> (Inl BAD_REQUEST, d)
      | Some input \<Rightarrow>
          (let (result, d') = createTranslationJob db_now input d in (rethrown result, d')))"

definition appRouter_getTranslationJob ::
  "raw_get \<Rightarrow> database \<Rightarrow> (trpc_error + TranslationJob option) \<times> database" where
  "appRouter_getTranslationJob raw d =
     (case getTranslationJobInputSchema raw of
        None \<Rightarrow> (Inl BAD_REQUEST, d)
      | Some input \<Rightarrow> (rethrown (getTranslationJob input d), d))"

definition appRouter_updateTranslationJob ::
  "timestamp \<Rightarrow> raw_update \<Rightarrow> database \<Rightarrow> (trpc_error + TranslationJob option) \<times> database" where
  "appRouter_updateTranslationJob now raw d =
     (case updateTranslationJobInputSchema raw of
        None \<Rightarrow> (Inl BAD_REQUEST, d)
      | Some input \<Rightarrow>
          (let (result, d') = updateTranslationJob now input d in (rethrown result, d')))"

definition appRouter_getSupportedLanguages ::
  "database \<Rightarrow> (trpc_error + LanguageOption list) \<times> database" where
  "appRouter_getSupportedLanguages d = (Inr getSupportedLanguages, d)"

text \<open>A run of update requests, each with the clock reading of its call.\<close>

fun update_requests :: "(timestamp \<times> raw_update) list \<Rightarrow> database \<Rightarrow> database" where
  "update_requests [] d = d"
| "update_requests ((now, raw) # rest) d =
     update_requests rest (snd (appRouter_updateTranslationJob now raw d))"

section \<open>Runs of uploads\<close>

text \<open>
  Several uploads, one after the other, each with the three values its call reads:
  \<^verbatim>\<open>Date.now()\<close>, the random token and the database clock. A handler computes its path
  from its own readings before it first waits, so uploads that overlap produce the
  paths of some such sequence. \<open>upload_all\<close> lists the result of every call. \<open>uploaded\<close>
  keeps the calls that succeeded, each with the job it returned. \<open>call_filename\<close>,
  \<open>call_stamp\<close> and \<open>call_path\<close> give the filename of a call, its pair of timestamp and
  token, and the path the handler builds.
\<close>

type_synonym upload_call = "nat \<times> string \<times> timestamp \<times> UploadVideoInput"

fun upload_all ::
  "'fs runtime \<Rightarrow> upload_call list \<Rightarrow> 'fs server_state
     \<Rightarrow> (failure + TranslationJob) list \<times> 'fs server_state" where
  "upload_all rt [] s = ([], s)"
| "upload_all rt ((date_now, randomId, db_now, input) # rest) s =
     (let (result, s') = uploadVideo rt date_now randomId db_now input s;
          (results, s'') = upload_all rt rest s'
      in (result # results, s''))"

fun uploaded ::
  "upload_call list \<Rightarrow> (failure + TranslationJob) list \<Rightarrow> (upload_call \<times> TranslationJob) list" where
  "uploaded (c # calls) (Inr job # results) = (c, job) # uploaded calls results"
| "uploaded (c # calls) (Inl e # results) = uploaded calls results"
| "uploaded calls results = []"

definition call_filename :: "upload_call \<Rightarrow> string" where
  "call_filename c = (case c of (date_now, randomId, db_now, input) \<Rightarrow> v_filename input)"

definition call_stamp :: "upload_call \<Rightarrow> nat \<times> string" where
  "call_stamp c = (case c of (date_now, randomId, db_now, input) \<Rightarrow> (date_now, randomId))"

definition call_path :: "upload_call \<Rightarrow> string" where
  "call_path c =
     (case c of (date_now, randomId, db_now, input) \<Rightarrow>
        upload_path date_now randomId (v_filename input))"

section \<open>Sample data\<close>

text \<open>
  The update input \<^verbatim>\<open>{ id }\<close> with no other key, a creation input, and the job and the
  store that creating it in the empty store at database time \<open>t\<close> gives.
\<close>

definition no_fields :: "number \<Rightarrow> UpdateTranslationJobInput" where
  "no_fields i =
     \<lparr>u_id = i, u_detected_language = None, u_status = None,
      u_translated_file_path = None, u_transcript = None,
      u_translated_transcript = None, u_error_message = None\<rparr>"

definition clip_input :: CreateTranslationJobInput where
  "clip_input =
     \<lparr>c_original_filename = ''clip.mp4'', c_original_file_path = ''/uploads/clip.mp4'',
      c_target_language = Lang_es\<rparr>"

definition clip_job :: "timestamp \<Rightarrow> TranslationJob" where
  "clip_job t =
     \<lparr>job_id = 1, original_filename = ''clip.mp4'',
      original_file_path = ''/uploads/clip.mp4'', detected_language = None,
      target_language = Lang_es, status = Pending, translated_file_path = None,
      transcript = None, translated_transcript = None, error_message = None,
      created_at = t, updated_at = t\<rparr>"

definition clip_database :: "timestamp \<Rightarrow> database" where
  "clip_database t = snd (createTranslationJob t clip_input empty_database)"

text \<open>
  The scenario of the handler's test for null values: the job of \<open>clip_database 7\<close> is
  given a transcript and an error message at time 8, and both are then cleared.
\<close>

definition annotate_input :: UpdateTranslationJobInput where
  "annotate_input =
     (no_fields (Finite 1))\<lparr>u_transcript := Some (Some ''Some transcript''),
                   u_error_message := Some (Some ''Some error'')\<rparr>"

definition clear_input :: UpdateTranslationJobInput where
  "clear_input = (no_fields (Finite 1))\<lparr>u_transcript := Some None, u_error_message := Some None\<rparr>"

definition annotated_job :: TranslationJob where
  "annotated_job =
     (clip_job 7)\<lparr>transcript := Some ''Some transcript'',
                  error_message := Some ''Some error'', updated_at := 8\<rparr>"

definition annotated_database :: database where
  "annotated_database = snd (updateTranslationJob 8 annotate_input (clip_database 7))"

text \<open>
  Requests that pass their schema and that the database refuses: an update that
  supplies a transcript with U+0000 between two letters, as a typed input and as the
  raw request it is parsed from, and a creation request whose filename holds U+0000.
\<close>

definition nul_transcript_input :: UpdateTranslationJobInput where
  "nul_transcript_input =
     (no_fields (Finite 1))\<lparr>u_transcript := Some (Some [CHR ''a'', CHR 0x00, CHR ''b''])\<rparr>"

definition nul_transcript_request :: raw_update where
  "nul_transcript_request =
     \<lparr>ru_id = JNumber (Finite 1), ru_detected_language = JUndefined, ru_status = JUndefined,
      ru_translated_file_path = JUndefined,
      ru_transcript = JString [CHR ''a'', CHR 0x00, CHR ''b''],
      ru_translated_transcript = JUndefined, ru_error_message = JUndefined\<rparr>"

definition nul_filename_request :: raw_create where
  "nul_filename_request =
     \<lparr>rc_original_filename = JString [CHR ''a'', CHR 0x00, CHR ''b''],
      rc_original_file_path = JString ''/uploads/clip.mp4'',
      rc_target_language = JString ''es''\<rparr>"

text \<open>
  A job whose language has been detected, and two update requests for it: one that
  tries to null \<^verbatim>\<open>detected_language\<close>, one that names other columns only.
\<close>

definition detect_then_others :: "(timestamp \<times> raw_update) list" where
  "detect_then_others =
     [(8, \<lparr>ru_id = JNumber (Finite 1), ru_detected_language = JNull, ru_status = JUndefined,
           ru_translated_file_path = JUndefined, ru_transcript = JUndefined,
           ru_translated_transcript = JUndefined, ru_error_message = JUndefined\<rparr>),
      (9, \<lparr>ru_id = JNumber (Finite 1), ru_detected_language = JUndefined,
           ru_status = JString ''completed'',
           ru_translated_file_path = JNull, ru_transcript = JString ''Hi'',
           ru_translated_transcript = JUndefined, ru_error_message = JNull\<rparr>)]"

definition detected_database :: database where
  "detected_database =
     snd (updateTranslationJob 6 ((no_fields (Finite 1))\<lparr>u_detected_language := Some Lang_en\<rparr>)
            (clip_database 5))"

text \<open>
  A runtime for the sample runs. Its file system is a map from path to content; it
  refuses a path that holds U+0000, and it refuses to write to a path that ends in a
  slash, which names a directory. Its decoder is the identity: no property below
  depends on the decoded bytes.
\<close>

definition sample_runtime :: "(string \<rightharpoonup> string) runtime" where
  "sample_runtime =
     \<lparr>mkdir = (\<lambda>path files. if text_accepted path then Some files else None),
      writeFile = (\<lambda>path content files.
         if text_accepted path \<and> path \<noteq> [] \<and> last path \<noteq> CHR ''/''
         then Some (files(path \<mapsto> content)) else None),
      from_base64 = (\<lambda>data. data)\<rparr>"

definition empty_server :: "(string \<rightharpoonup> string) server_state" where
  "empty_server = \<lparr>st_db = empty_database, st_files = Map.empty\<rparr>"

text \<open>
  Uploads of one filename. \<open>three_uploads\<close> differ in timestamp or token; the two
  \<open>colliding_uploads\<close> read the same millisecond and draw the same token. The two
  \<open>slash_uploads\<close> carry the filename \<^verbatim>\<open>clip/\<close>, which passes \<^verbatim>\<open>z.string().min(1)\<close>.
\<close>

definition same_name_upload :: "string \<Rightarrow> UploadVideoInput" where
  "same_name_upload content =
     \<lparr>v_filename = ''same-name.mp4'', v_file_data = content, v_target_language = Lang_en\<rparr>"

definition three_uploads :: "upload_call list" where
  "three_uploads =
     [(1700000000000, ''k3j9xa'', 5, same_name_upload ''Y29udGVudCAw''),
      (1700000000000, ''0v8q2m'', 5, same_name_upload ''Y29udGVudCAx''),
      (1700000000001, ''k3j9xa'', 5, same_name_upload ''Y29udGVudCAy'')]"

definition colliding_uploads :: "upload_call list" where
  "colliding_uploads =
     [(1700000000000, ''k3j9xa'', 5, same_name_upload ''Y29udGVudCAw''),
      (1700000000000, ''k3j9xa'', 5, same_name_upload ''Y29udGVudCAx'')]"

definition slash_uploads :: "upload_call list" where
  "slash_uploads =
     [(1700000000000, ''k3j9xa'', 5,
         \<lparr>v_filename = ''clip/'', v_file_data = ''Y29udGVudCAw'', v_target_language = Lang_en\<rparr>),
      (1700000000000, ''0v8q2m'', 5,
         \<lparr>v_filename = ''clip/'', v_file_data = ''Y29udGVudCAx'', v_target_language = Lang_en\<rparr>)]"

text \<open>
  A second job created in the same database clock instant as the job of
  \<open>clip_database 5\<close>, as the rows of one multi-row insert are.
\<close>

definition second_input :: CreateTranslationJobInput where
  "second_input =
     \<lparr>c_original_filename = ''talk.mov'', c_original_file_path = ''/uploads/talk.mov'',
      c_target_language = Lang_fr\<rparr>"

definition second_job :: TranslationJob where
  "second_job =
     \<lparr>job_id = 2, original_filename = ''talk.mov'',
      original_file_path = ''/uploads/talk.mov'', detected_language = None,
      target_language = Lang_fr, status = Pending, translated_file_path = None,
      transcript = None, translated_transcript = None, error_message = None,
      created_at = 5, updated_at = 5\<rparr>"

definition tie_database :: database where
  "tie_database = snd (createTranslationJob 5 second_input (clip_database 5))"

section \<open>Invariants\<close>

definition timestamps_ordered :: "database \<Rightarrow> bool" where
  "timestamps_ordered d = list_all (\<lambda>j. created_at j \<le> updated_at j) (translation_jobs d)"

section \<open>Properties\<close>

lemmas handler_defs =
  createTranslationJob_def insert_returning_def insert_accepted_def
  getTranslationJob_def select_where_id_def updateTranslationJob_def set_columns_def
  update_texts_accepted_def supplied_text_accepted_def nullable_text_accepted_def
  text_accepted_def as_int4_def Let_def

lemmas clip_defs =
  no_fields_def clip_input_def clip_job_def clip_database_def empty_database_def

lemmas annotated_defs =
  annotate_input_def clear_input_def annotated_job_def annotated_database_def

subsection \<open>Schemas and parameters\<close>

lemma supportedLanguagesSchema_code:
  "supportedLanguagesSchema (JString (language_code l)) = Some l"
  by (cases l) (simp_all add: supportedLanguagesSchema_def supportedLanguages_def)

lemma supportedLanguagesSchema_Some:
  "supportedLanguagesSchema v = Some l \<Longrightarrow> v = JString (language_code l)"
  by (auto simp: supportedLanguagesSchema_def find_Some_iff split: json.splits)

lemma as_int4_of_int:
  "as_int4 (Finite (of_int k)) =
     (if - 2147483648 \<le> k \<and> k \<le> 2147483647 then Some k else None)"
  by (simp add: as_int4_def)

lemma as_int4_Some:
  "as_int4 n = Some k \<Longrightarrow> n = Finite (of_int k) \<and> - 2147483648 \<le> k \<and> k \<le> 2147483647"
  by (auto simp: as_int4_def split: number.splits if_splits)

subsection \<open>Creation\<close>

lemma createTranslationJob_accepted:
  assumes "text_accepted (c_original_filename input)"
    and "text_accepted (c_original_file_path input)"
    and "translation_jobs_id_seq d < 2147483647"
  shows "createTranslationJob db_now input d =
     (Inr \<lparr>job_id = translation_jobs_id_seq d + 1,
           original_filename = c_original_filename input,
           original_file_path = c_original_file_path input,
           detected_language = None,
           target_language = c_target_language input,
           status = Pending,
           translated_file_path = None,
           transcript = None,
           translated_transcript = None,
           error_message = None,
           created_at = db_now,
           updated_at = db_now\<rparr>,
      \<lparr>translation_jobs = translation_jobs d @
          [\<lparr>job_id = translation_jobs_id_seq d + 1,
            original_filename = c_original_filename input,
            original_file_path = c_original_file_path input,
            detected_language = None,
            target_language = c_target_language input,
            status = Pending,
            translated_file_path = None,
            transcript = None,
            translated_transcript = None,
            error_message = None,
            created_at = db_now,
            updated_at = db_now\<rparr>],
       translation_jobs_id_seq = translation_jobs_id_seq d + 1\<rparr>)"
  using assms
  by (simp add: createTranslationJob_def insert_returning_def insert_accepted_def
        nullable_text_accepted_def Let_def)

lemma createTranslationJob_refused:
  assumes "\<not> (text_accepted (c_original_filename input)
            \<and> text_accepted (c_original_file_path input)
            \<and> translation_jobs_id_seq d < 2147483647)"
  shows "createTranslationJob db_now input d = (Inl DatabaseError, d)"
  using assms
  by (auto simp: createTranslationJob_def insert_returning_def insert_accepted_def)

lemma createTranslationJob_cases:
  "(\<exists>job. createTranslationJob db_now input d =
        (Inr job, \<lparr>translation_jobs = translation_jobs d @ [job],
                   translation_jobs_id_seq = translation_jobs_id_seq d + 1\<rparr>)
      \<and> created_at job = db_now \<and> updated_at job = db_now
      \<and> job_id job = translation_jobs_id_seq d + 1)
   \<or> createTranslationJob db_now input d = (Inl DatabaseError, d)"
  by (cases "text_accepted (c_original_filename input)
            \<and> text_accepted (c_original_file_path input)
            \<and> translation_jobs_id_seq d < 2147483647")
     (simp_all add: createTranslationJob_accepted createTranslationJob_refused)

lemma clip_created:
  "createTranslationJob t clip_input empty_database =
     (Inr (clip_job t), \<lparr>translation_jobs = [clip_job t], translation_jobs_id_seq = 1\<rparr>)"
  by (simp add: clip_defs handler_defs)

lemma clip_database_eq:
  "clip_database t = \<lparr>translation_jobs = [clip_job t], translation_jobs_id_seq = 1\<rparr>"
  by (simp add: clip_database_def clip_created)

text \<open>
  Claim C2, as stated, fails: the creation request below has a non-empty filename, a
  non-empty path and the target language \<^verbatim>\<open>es\<close>, and it passes the schema, but its
  filename holds U+0000. The database refuses the insert, the handler rethrows, the
  procedure answers with the internal error and no job is stored.
\<close>

theorem create_nul_filename_counterexample:
  "createTranslationJobInputSchema nul_filename_request =
       Some \<lparr>c_original_filename = [CHR ''a'', CHR 0x00, CHR ''b''],
             c_original_file_path = ''/uploads/clip.mp4'', c_target_language = Lang_es\<rparr>
   \<and> createTranslationJob 7
         \<lparr>c_original_filename = [CHR ''a'', CHR 0x00, CHR ''b''],
          c_original_file_path = ''/uploads/clip.mp4'', c_target_language = Lang_es\<rparr>
         empty_database = (Inl DatabaseError, empty_database)
   \<and> appRouter_createTranslationJob 7 nul_filename_request empty_database
       = (Inl INTERNAL_SERVER_ERROR, empty_database)"
  by (simp add: nul_filename_request_def createTranslationJobInputSchema_def z_string_min_def
        supportedLanguagesSchema_def supportedLanguages_def
        appRouter_createTranslationJob_def rethrown_def empty_database_def handler_defs)

text \<open>
  Claim C2, amended. Take a creation request with a non-empty filename, a non-empty
  path and a target language among the twelve codes; it passes the schema and reaches
  the handler. When neither string holds U+0000 and the id sequence is not exhausted,
  the procedure returns the job the handler returns: it carries the three fields of
  the request, its status is \<^verbatim>\<open>pending\<close>, its \<^verbatim>\<open>detected_language\<close>,
  \<^verbatim>\<open>translated_file_path\<close>, \<^verbatim>\<open>transcript\<close>, \<^verbatim>\<open>translated_transcript\<close> and \<^verbatim>\<open>error_message\<close> are
  null, its \<^verbatim>\<open>created_at\<close> equals its \<^verbatim>\<open>updated_at\<close>, and it is appended to the table.
  Otherwise the database refuses the insert: the procedure answers with the internal
  error and the store is as it was.
\<close>

theorem create_valid_input_pending:
  assumes "rc_original_filename raw = JString f" and "f \<noteq> []"
    and "rc_original_file_path raw = JString p" and "p \<noteq> []"
    and "rc_target_language raw = JString (language_code l)"
  shows "(text_accepted f \<and> text_accepted p \<and> translation_jobs_id_seq d < 2147483647 \<longrightarrow>
          (\<exists>job d'. appRouter_createTranslationJob db_now raw d = (Inr job, d')
             \<and> createTranslationJob db_now
                  \<lparr>c_original_filename = f, c_original_file_path = p, c_target_language = l\<rparr> d
                 = (Inr job, d')
             \<and> original_filename job = f
             \<and> original_file_path job = p
             \<and> target_language job = l
             \<and> status job = Pending
             \<and> detected_language job = None
             \<and> translated_file_path job = None
             \<and> transcript job = None
             \<and> translated_transcript job = None
             \<and> error_message job = None
             \<and> created_at job = updated_at job
             \<and> translation_jobs d' = translation_jobs d @ [job]))
       \<and> (\<not> (text_accepted f \<and> text_accepted p \<and> translation_jobs_id_seq d < 2147483647) \<longrightarrow>
            appRouter_createTranslationJob db_now raw d = (Inl INTERNAL_SERVER_ERROR, d))"
proof -
  let ?input = "\<lparr>c_original_filename = f, c_original_file_path = p, c_target_language = l\<rparr>"
  have parse: "createTranslationJobInputSchema raw = Some ?input"
    using assms
    by (cases f; cases p)
       (simp_all add: createTranslationJobInputSchema_def z_string_min_def
          supportedLanguagesSchema_code)
  show ?thesis
  proof (intro conjI impI)
    assume ok: "text_accepted f \<and> text_accepted p \<and> translation_jobs_id_seq d < 2147483647"
    then have "text_accepted (c_original_filename ?input)"
      and "text_accepted (c_original_file_path ?input)"
      and "translation_jobs_id_seq d < 2147483647"
      by simp_all
    from createTranslationJob_accepted [OF this, of db_now]
    show "\<exists>job d'. appRouter_createTranslationJob db_now raw d = (Inr job, d')
             \<and> createTranslationJob db_now ?input d = (Inr job, d')
             \<and> original_filename job = f
             \<and> original_file_path job = p
             \<and> target_language job = l
             \<and> status job = Pending
             \<and> detected_language job = None
             \<and> translated_file_path job = None
             \<and> transcript job = None
             \<and> translated_transcript job = None
             \<and> error_message job = None
             \<and> created_at job = updated_at job
             \<and> translation_jobs d' = translation_jobs d @ [job]"
      by (simp add: appRouter_createTranslationJob_def parse rethrown_def)
  next
    assume "\<not> (text_accepted f \<and> text_accepted p \<and> translation_jobs_id_seq d < 2147483647)"
    then have "\<not> (text_accepted (c_original_filename ?input)
            \<and> text_accepted (c_original_file_path ?input)
            \<and> translation_jobs_id_seq d < 2147483647)"
      by simp
    from createTranslationJob_refused [OF this, of db_now]
    show "appRouter_createTranslationJob db_now raw d = (Inl INTERNAL_SERVER_ERROR, d)"
      by (simp add: appRouter_createTranslationJob_def parse rethrown_def)
  qed
qed

theorem create_valid_input_pending_witness:
  "\<exists>job d'. appRouter_createTranslationJob 7
       \<lparr>rc_original_filename = JString ''clip.mp4'',
        rc_original_file_path = JString ''/uploads/clip.mp4'',
        rc_target_language = JString ''es''\<rparr> empty_database = (Inr job, d')
     \<and> original_filename job = ''clip.mp4''
     \<and> status job = Pending \<and> detected_language job = None
     \<and> created_at job = updated_at job \<and> translation_jobs d' = [job]"
proof -
  have "text_accepted ''clip.mp4'' \<and> text_accepted ''/uploads/clip.mp4''
      \<and> translation_jobs_id_seq empty_database < 2147483647"
    by (simp add: text_accepted_def empty_database_def)
  with create_valid_input_pending [of
      "\<lparr>rc_original_filename = JString ''clip.mp4'',
        rc_original_file_path = JString ''/uploads/clip.mp4'',
        rc_target_language = JString ''es''\<rparr>"
      "''clip.mp4''" "''/uploads/clip.mp4''" Lang_es empty_database 7]
  show ?thesis
    by (auto simp: empty_database_def)
qed

text \<open>
  Claim C9. A creation request whose filename is the empty string, whose path is the
  empty string, or whose target language is anything but one of the twelve codes is
  answered with the validation error, and the store is left as it was.
\<close>

theorem create_rejects_invalid_input:
  assumes "rc_original_filename raw = JString []
         \<or> rc_original_file_path raw = JString []
         \<or> (\<forall>l. rc_target_language raw \<noteq> JString (language_code l))"
  shows "appRouter_createTranslationJob db_now raw d = (Inl BAD_REQUEST, d)"
proof -
  have "createTranslationJobInputSchema raw = None"
  proof (rule ccontr)
    assume "createTranslationJobInputSchema raw \<noteq> None"
    then obtain f p l where
      f: "z_string_min 1 (rc_original_filename raw) = Some f" and
      p: "z_string_min 1 (rc_original_file_path raw) = Some p" and
      l: "supportedLanguagesSchema (rc_target_language raw) = Some l"
      by (auto simp: createTranslationJobInputSchema_def split: bind_splits)
    from f have "rc_original_filename raw \<noteq> JString []"
      by (auto simp: z_string_min_def)
    moreover from p have "rc_original_file_path raw \<noteq> JString []"
      by (auto simp: z_string_min_def)
    moreover from l have "rc_target_language raw = JString (language_code l)"
      by (rule supportedLanguagesSchema_Some)
    ultimately show False using assms by blast
  qed
  then show ?thesis by (simp add: appRouter_createTranslationJob_def)
qed

theorem create_rejects_invalid_input_witness:
  "appRouter_createTranslationJob 7
       \<lparr>rc_original_filename = JString [],
        rc_original_file_path = JString ''/uploads/clip.mp4'',
        rc_target_language = JString ''es''\<rparr> empty_database
     = (Inl BAD_REQUEST, empty_database)
   \<and> appRouter_createTranslationJob 7
       \<lparr>rc_original_filename = JString ''clip.mp4'',
        rc_original_file_path = JString [],
        rc_target_language = JString ''es''\<rparr> empty_database
     = (Inl BAD_REQUEST, empty_database)
   \<and> appRouter_createTranslationJob 7
       \<lparr>rc_original_filename = JString ''clip.mp4'',
        rc_original_file_path = JString ''/uploads/clip.mp4'',
        rc_target_language = JString ''xx''\<rparr> empty_database
     = (Inl BAD_REQUEST, empty_database)"
proof -
  have no_code: "\<forall>l. JString ''xx'' \<noteq> JString (language_code l)"
  proof
    fix l show "JString ''xx'' \<noteq> JString (language_code l)"
      by (cases l) simp_all
  qed
  show ?thesis
    using create_rejects_invalid_input [of
        "\<lparr>rc_original_filename = JString [],
          rc_original_file_path = JString ''/uploads/clip.mp4'',
          rc_target_language = JString ''es''\<rparr>" 7 empty_database]
      create_rejects_invalid_input [of
        "\<lparr>rc_original_filename = JString ''clip.mp4'',
          rc_original_file_path = JString [],
          rc_target_language = JString ''es''\<rparr>" 7 empty_database]
      create_rejects_invalid_input [of
        "\<lparr>rc_original_filename = JString ''clip.mp4'',
          rc_original_file_path = JString ''/uploads/clip.mp4'',
          rc_target_language = JString ''xx''\<rparr>" 7 empty_database]
      no_code
    by simp
qed

subsection \<open>Reading and updating\<close>

lemma job_id_set_columns [simp]: "job_id (set_columns now input j) = job_id j"
  by (simp add: set_columns_def)

lemma getTranslationJob_accepted:
  "as_int4 (g_id input) = Some i \<Longrightarrow>
   getTranslationJob input d =
     Inr (case select_where_id i d of [] \<Rightarrow> None | job # _ \<Rightarrow> Some job)"
  by (simp add: getTranslationJob_def split: list.splits)

lemma getTranslationJob_refused:
  "as_int4 (g_id input) = None \<Longrightarrow> getTranslationJob input d = Inl DatabaseError"
  by (simp add: getTranslationJob_def)

lemma getTranslationJob_Some:
  assumes "getTranslationJob \<lparr>g_id = n\<rparr> d = Inr (Some old)"
  shows "\<exists>i rest. as_int4 n = Some i \<and> select_where_id i d = old # rest"
proof (cases "as_int4 n")
  case None
  with assms show ?thesis by (simp add: getTranslationJob_refused)
next
  case (Some i)
  with assms show ?thesis
    by (auto simp: getTranslationJob_accepted split: list.splits)
qed

lemma select_where_id_absent:
  "\<forall>j\<in>set (translation_jobs d). job_id j \<noteq> i \<Longrightarrow> select_where_id i d = []"
  by (simp add: select_where_id_def filter_empty_conv)

lemma update_rows_absent:
  "\<forall>j\<in>set js. job_id j \<noteq> i \<Longrightarrow> map (\<lambda>j. if job_id j = i then f j else j) js = js"
  by (induction js) auto

lemma updateTranslationJob_accepted:
  assumes "as_int4 (u_id input) = Some i" and "update_texts_accepted input"
  shows "updateTranslationJob now input d =
     (Inr (case select_where_id i d of [] \<Rightarrow> None
           | job # _ \<Rightarrow> Some (set_columns now input job)),
      d\<lparr>translation_jobs :=
          map (\<lambda>j. if job_id j = i then set_columns now input j else j)
            (translation_jobs d)\<rparr>)"
  using assms by (simp add: updateTranslationJob_def Let_def split: list.splits)

lemma updateTranslationJob_refused:
  assumes "as_int4 (u_id input) = None \<or> \<not> update_texts_accepted input"
  shows "updateTranslationJob now input d = (Inl DatabaseError, d)"
  using assms by (auto simp: updateTranslationJob_def split: option.splits)

lemma filter_update_rows:
  "filter (\<lambda>j. job_id j = i)
     (map (\<lambda>j. if job_id j = k then set_columns now input j else j) js) =
   (if k = i then map (set_columns now input) (filter (\<lambda>j. job_id j = i) js)
    else filter (\<lambda>j. job_id j = i) js)"
  by (induction js) auto

lemma select_where_id_rewritten:
  "select_where_id i
     (d\<lparr>translation_jobs :=
          map (\<lambda>j. if job_id j = k then set_columns now input j else j) (translation_jobs d)\<rparr>) =
     (if k = i then map (set_columns now input) (select_where_id i d)
      else select_where_id i d)"
  by (simp add: select_where_id_def filter_update_rows)

lemma filter_others_update_rows:
  "filter (\<lambda>j. job_id j \<noteq> k)
     (map (\<lambda>j. if job_id j = k then set_columns now input j else j) js) =
   filter (\<lambda>j. job_id j \<noteq> k) js"
  by (induction js) auto

lemma map_job_id_update_rows:
  "map job_id (map (\<lambda>j. if job_id j = k then set_columns now input j else j) js) =
   map job_id js"
  by (induction js) auto

lemma update_existing:
  assumes "getTranslationJob \<lparr>g_id = u_id input\<rparr> d = Inr (Some old)"
    and "update_texts_accepted input"
  shows "\<exists>i. as_int4 (u_id input) = Some i
    \<and> updateTranslationJob now input d =
        (Inr (Some (set_columns now input old)),
         d\<lparr>translation_jobs :=
             map (\<lambda>j. if job_id j = i then set_columns now input j else j)
               (translation_jobs d)\<rparr>)
    \<and> getTranslationJob \<lparr>g_id = u_id input\<rparr>
         (d\<lparr>translation_jobs :=
             map (\<lambda>j. if job_id j = i then set_columns now input j else j)
               (translation_jobs d)\<rparr>)
        = Inr (Some (set_columns now input old))"
proof -
  from assms(1) obtain i rest where
    i: "as_int4 (u_id input) = Some i" and sel: "select_where_id i d = old # rest"
    by (auto dest: getTranslationJob_Some)
  have "updateTranslationJob now input d =
        (Inr (Some (set_columns now input old)),
         d\<lparr>translation_jobs :=
             map (\<lambda>j. if job_id j = i then set_columns now input j else j)
               (translation_jobs d)\<rparr>)"
    by (simp add: updateTranslationJob_accepted [OF i assms(2)] sel)
  moreover have "getTranslationJob \<lparr>g_id = u_id input\<rparr>
         (d\<lparr>translation_jobs :=
             map (\<lambda>j. if job_id j = i then set_columns now input j else j)
               (translation_jobs d)\<rparr>)
        = Inr (Some (set_columns now input old))"
    using i by (simp add: getTranslationJob_accepted select_where_id_rewritten sel)
  ultimately show ?thesis using i by blast
qed

lemma update_succeeds_iff:
  assumes "getTranslationJob \<lparr>g_id = u_id input\<rparr> d = Inr (Some old)"
  shows "(\<exists>r d'. updateTranslationJob now input d = (Inr r, d')) = update_texts_accepted input"
proof (cases "update_texts_accepted input")
  case True
  with update_existing [OF assms True, of now] show ?thesis by auto
next
  case False
  then have "updateTranslationJob now input d = (Inl DatabaseError, d)"
    by (simp add: updateTranslationJob_refused)
  with False show ?thesis by simp
qed

lemma no_fields_accepted: "update_texts_accepted (no_fields i)"
  by (simp add: no_fields_def update_texts_accepted_def supplied_text_accepted_def)

lemma clip_database_get:
  "getTranslationJob \<lparr>g_id = Finite 1\<rparr> (clip_database t) = Inr (Some (clip_job t))"
  by (simp add: clip_database_eq getTranslationJob_def select_where_id_def as_int4_def
        clip_job_def)

lemma as_int4_three_halves: "as_int4 (Finite (3 / 2)) = None"
proof -
  have "\<lfloor>3 / 2 :: rat\<rfloor> = 1"
    by (rule floor_unique) simp_all
  then show ?thesis
    by (simp add: as_int4_def)
qed

text \<open>
  Claim C3, as stated, fails. The number 2147483648 passes \<^verbatim>\<open>z.number()\<close> and no job has
  it as id, but it is no value of the 32-bit \<^verbatim>\<open>id\<close> column: the database refuses the
  query, the handlers rethrow, and reading and updating are answered with the internal
  error, not with null. The same holds of the number 3/2 and of \<^verbatim>\<open>Infinity\<close>.
\<close>

theorem missing_id_out_of_range_counterexample:
  "map job_id (translation_jobs (clip_database 7)) = [1]
   \<and> getTranslationJobInputSchema \<lparr>rg_id = JNumber (Finite 2147483648)\<rparr>
       = Some \<lparr>g_id = Finite 2147483648\<rparr>
   \<and> getTranslationJob \<lparr>g_id = Finite 2147483648\<rparr> (clip_database 7) = Inl DatabaseError
   \<and> appRouter_getTranslationJob \<lparr>rg_id = JNumber (Finite 2147483648)\<rparr> (clip_database 7)
       = (Inl INTERNAL_SERVER_ERROR, clip_database 7)
   \<and> updateTranslationJob 9 (no_fields (Finite 2147483648)) (clip_database 7)
       = (Inl DatabaseError, clip_database 7)
   \<and> appRouter_getTranslationJob \<lparr>rg_id = JNumber (Finite (3 / 2))\<rparr> (clip_database 7)
       = (Inl INTERNAL_SERVER_ERROR, clip_database 7)
   \<and> appRouter_getTranslationJob \<lparr>rg_id = JNumber PositiveInfinity\<rparr> (clip_database 7)
       = (Inl INTERNAL_SERVER_ERROR, clip_database 7)"
proof -
  have "appRouter_getTranslationJob \<lparr>rg_id = JNumber PositiveInfinity\<rparr> (clip_database 7)
       = (Inl INTERNAL_SERVER_ERROR, clip_database 7)"
    by (simp add: appRouter_getTranslationJob_def getTranslationJobInputSchema_def z_number_def
          getTranslationJob_def as_int4_def rethrown_def)
  moreover have "appRouter_getTranslationJob \<lparr>rg_id = JNumber (Finite (3 / 2))\<rparr> (clip_database 7)
       = (Inl INTERNAL_SERVER_ERROR, clip_database 7)"
    by (simp add: appRouter_getTranslationJob_def getTranslationJobInputSchema_def z_number_def
          getTranslationJob_refused as_int4_three_halves rethrown_def)
  moreover have "map job_id (translation_jobs (clip_database 7)) = [1]
   \<and> getTranslationJobInputSchema \<lparr>rg_id = JNumber (Finite 2147483648)\<rparr>
       = Some \<lparr>g_id = Finite 2147483648\<rparr>
   \<and> getTranslationJob \<lparr>g_id = Finite 2147483648\<rparr> (clip_database 7) = Inl DatabaseError
   \<and> appRouter_getTranslationJob \<lparr>rg_id = JNumber (Finite 2147483648)\<rparr> (clip_database 7)
       = (Inl INTERNAL_SERVER_ERROR, clip_database 7)
   \<and> updateTranslationJob 9 (no_fields (Finite 2147483648)) (clip_database 7)
       = (Inl DatabaseError, clip_database 7)"
    by (simp add: clip_database_eq clip_job_def getTranslationJobInputSchema_def z_number_def
          appRouter_getTranslationJob_def rethrown_def getTranslationJob_def
          updateTranslationJob_def as_int4_def no_fields_def)
  ultimately show ?thesis by (simp only: simp_thms)
qed

text \<open>
  Claim C3, amended. Let \<open>n\<close> be a number that is the id of no row. If \<open>n\<close> is a 32-bit
  integer, reading it answers null, and updating it with text values free of U+0000
  answers null, both as ordinary results of the procedure. If \<open>n\<close> is not a 32-bit
  integer, the database refuses the query and both procedures answer with the internal
  error; an update whose text holds U+0000 is refused likewise. In every case the
  update returns the store exactly as it was: nothing is created and nothing written.
\<close>

theorem missing_id_not_found:
  assumes "\<forall>j\<in>set (translation_jobs d). Finite (of_int (job_id j)) \<noteq> n"
  shows "(as_int4 n \<noteq> None \<longrightarrow>
            getTranslationJob \<lparr>g_id = n\<rparr> d = Inr None
          \<and> appRouter_getTranslationJob \<lparr>rg_id = JNumber n\<rparr> d = (Inr None, d)
          \<and> (u_id input = n \<and> update_texts_accepted input
               \<longrightarrow> updateTranslationJob now input d = (Inr None, d))
          \<and> (updateTranslationJobInputSchema raw = Some input \<and> u_id input = n
               \<and> update_texts_accepted input
               \<longrightarrow> appRouter_updateTranslationJob now raw d = (Inr None, d)))
       \<and> (as_int4 n = None \<longrightarrow>
            getTranslationJob \<lparr>g_id = n\<rparr> d = Inl DatabaseError
          \<and> appRouter_getTranslationJob \<lparr>rg_id = JNumber n\<rparr> d = (Inl INTERNAL_SERVER_ERROR, d)
          \<and> (u_id input = n \<longrightarrow> updateTranslationJob now input d = (Inl DatabaseError, d))
          \<and> (updateTranslationJobInputSchema raw = Some input \<and> u_id input = n
               \<longrightarrow> appRouter_updateTranslationJob now raw d = (Inl INTERNAL_SERVER_ERROR, d)))
       \<and> (u_id input = n \<and> \<not> update_texts_accepted input
            \<longrightarrow> updateTranslationJob now input d = (Inl DatabaseError, d))
       \<and> (u_id input = n \<longrightarrow> snd (updateTranslationJob now input d) = d)"
proof -
  have absent: "select_where_id i d = [] \<and> (\<forall>j\<in>set (translation_jobs d). job_id j \<noteq> i)"
    if "as_int4 n = Some i" for i
  proof -
    from that have "n = Finite (of_int i)" by (auto dest: as_int4_Some)
    with assms have "\<forall>j\<in>set (translation_jobs d). job_id j \<noteq> i" by auto
    then show ?thesis by (simp add: select_where_id_absent)
  qed
  have get: "getTranslationJob \<lparr>g_id = n\<rparr> d = Inr None" if "as_int4 n \<noteq> None"
    using that absent by (auto simp: getTranslationJob_accepted)
  have upd: "updateTranslationJob now input d = (Inr None, d)"
    if "as_int4 n \<noteq> None" and "u_id input = n" and "update_texts_accepted input"
  proof -
    from that(1) obtain i where i: "as_int4 n = Some i" by auto
    with that(2) have "as_int4 (u_id input) = Some i" by simp
    from updateTranslationJob_accepted [OF this that(3), of now d] absent [OF i]
    show ?thesis by (simp add: update_rows_absent)
  qed
  have refused: "updateTranslationJob now input d = (Inl DatabaseError, d)"
    if "u_id input = n" and "as_int4 n = None \<or> \<not> update_texts_accepted input"
    using that by (auto simp: updateTranslationJob_refused)
  have unchanged: "snd (updateTranslationJob now input d) = d" if "u_id input = n"
  proof (cases "as_int4 n \<noteq> None \<and> update_texts_accepted input")
    case True
    with upd that show ?thesis by simp
  next
    case False
    with refused that show ?thesis by auto
  qed
  show ?thesis
    using get upd refused unchanged
    by (auto simp: appRouter_getTranslationJob_def getTranslationJobInputSchema_def
          z_number_def appRouter_updateTranslationJob_def rethrown_def
          getTranslationJob_refused)
qed

theorem missing_id_not_found_witness:
  "getTranslationJob \<lparr>g_id = Finite 99999\<rparr> (clip_database 7) = Inr None
   \<and> appRouter_getTranslationJob \<lparr>rg_id = JNumber (Finite 99999)\<rparr> (clip_database 7)
       = (Inr None, clip_database 7)
   \<and> updateTranslationJob 9 ((no_fields (Finite 99999))\<lparr>u_status := Some Completed\<rparr>)
         (clip_database 7)
       = (Inr None, clip_database 7)
   \<and> getTranslationJob \<lparr>g_id = Finite 2147483648\<rparr> (clip_database 7) = Inl DatabaseError"
proof -
  have a: "\<forall>j\<in>set (translation_jobs (clip_database 7)). Finite (of_int (job_id j)) \<noteq> Finite 99999"
    and b: "\<forall>j\<in>set (translation_jobs (clip_database 7)). Finite (of_int (job_id j)) \<noteq> Finite 2147483648"
    by (simp_all add: clip_database_eq clip_job_def)
  have ok: "as_int4 (Finite 99999) \<noteq> None" and bad: "as_int4 (Finite 2147483648) = None"
    by (simp_all add: as_int4_def)
  have inp: "u_id ((no_fields (Finite 99999))\<lparr>u_status := Some Completed\<rparr>) = Finite 99999
      \<and> update_texts_accepted ((no_fields (Finite 99999))\<lparr>u_status := Some Completed\<rparr>)"
    by (simp add: no_fields_def update_texts_accepted_def supplied_text_accepted_def)
  from missing_id_not_found [OF a, of "(no_fields (Finite 99999))\<lparr>u_status := Some Completed\<rparr>" 9]
    missing_id_not_found [OF b] ok bad inp
  show ?thesis by blast
qed

lemma annotated_database_eq:
  "annotated_database = \<lparr>translation_jobs = [annotated_job], translation_jobs_id_seq = 1\<rparr>"
  by (simp add: annotated_defs clip_database_eq clip_job_def no_fields_def handler_defs)

lemma annotated_database_get:
  "getTranslationJob \<lparr>g_id = Finite 1\<rparr> annotated_database = Inr (Some annotated_job)"
  by (simp add: annotated_database_eq getTranslationJob_def select_where_id_def as_int4_def
        annotated_job_def clip_job_def)

text \<open>
  Claim C1, as stated, fails. The update request below passes the schema and names the
  transcript of the stored job 1, but the text it supplies holds U+0000: the database
  refuses the statement, the handler rethrows, and the stored job keeps the transcript
  and the \<^verbatim>\<open>updated_at\<close> it had. A field present in the input is not changed.
\<close>

theorem update_nul_text_counterexample:
  "updateTranslationJobInputSchema nul_transcript_request = Some nul_transcript_input
   \<and> u_id nul_transcript_input = Finite 1
   \<and> u_transcript nul_transcript_input = Some (Some [CHR ''a'', CHR 0x00, CHR ''b''])
   \<and> getTranslationJob \<lparr>g_id = Finite 1\<rparr> annotated_database = Inr (Some annotated_job)
   \<and> transcript annotated_job = Some ''Some transcript''
   \<and> updated_at annotated_job = 8
   \<and> updateTranslationJob 9 nul_transcript_input annotated_database
       = (Inl DatabaseError, annotated_database)
   \<and> appRouter_updateTranslationJob 9 nul_transcript_request annotated_database
       = (Inl INTERNAL_SERVER_ERROR, annotated_database)"
proof -
  have parse: "updateTranslationJobInputSchema nul_transcript_request = Some nul_transcript_input"
    by (simp add: nul_transcript_request_def nul_transcript_input_def no_fields_def
          updateTranslationJobInputSchema_def z_number_def z_optional_def z_nullable_def
          z_string_def)
  have refused: "updateTranslationJob 9 nul_transcript_input annotated_database
       = (Inl DatabaseError, annotated_database)"
    by (rule updateTranslationJob_refused)
       (simp add: nul_transcript_input_def no_fields_def update_texts_accepted_def
          supplied_text_accepted_def nullable_text_accepted_def text_accepted_def)
  have "appRouter_updateTranslationJob 9 nul_transcript_request annotated_database
       = (Inl INTERNAL_SERVER_ERROR, annotated_database)"
    by (simp add: appRouter_updateTranslationJob_def parse refused rethrown_def)
  moreover have "u_id nul_transcript_input = Finite 1
   \<and> u_transcript nul_transcript_input = Some (Some [CHR ''a'', CHR 0x00, CHR ''b''])"
    by (simp add: nul_transcript_input_def no_fields_def)
  moreover have "transcript annotated_job = Some ''Some transcript''
   \<and> updated_at annotated_job = 8"
    by (simp add: annotated_job_def)
  ultimately show ?thesis
    using parse refused annotated_database_get by (simp only:)
qed

text \<open>
  Claim C1, amended. Let \<open>old\<close> be the job stored under the id of an update input. When
  every text the input supplies is free of U+0000, the update returns a job \<open>new\<close> and
  stores it under the same id. The columns no update input can name (\<^verbatim>\<open>id\<close>,
  \<^verbatim>\<open>original_filename\<close>, \<^verbatim>\<open>original_file_path\<close>, \<^verbatim>\<open>target_language\<close>, \<^verbatim>\<open>created_at\<close>) keep
  their values and \<^verbatim>\<open>updated_at\<close> is the clock reading. Each of the six columns the input
  can name keeps its value when the key is omitted and takes the supplied value when
  the key is present; for the four text columns the supplied value may be null
  (\<open>Some None\<close>), which clears the column. The rows of other ids, the order of the rows
  and the id sequence are untouched. When a supplied text holds U+0000 the database
  refuses the update: the handler rethrows and the store is as it was.
\<close>

theorem update_changes_supplied_fields_only:
  assumes "getTranslationJob \<lparr>g_id = u_id input\<rparr> d = Inr (Some old)"
  shows "(update_texts_accepted input \<longrightarrow>
    (\<exists>new d'. updateTranslationJob now input d = (Inr (Some new), d')
    \<and> getTranslationJob \<lparr>g_id = u_id input\<rparr> d' = Inr (Some new)
    \<and> job_id new = job_id old
    \<and> original_filename new = original_filename old
    \<and> original_file_path new = original_file_path old
    \<and> target_language new = target_language old
    \<and> created_at new = created_at old
    \<and> updated_at new = now
    \<and> (u_detected_language input = None \<longrightarrow> detected_language new = detected_language old)
    \<and> (\<forall>l. u_detected_language input = Some l \<longrightarrow> detected_language new = Some l)
    \<and> (u_status input = None \<longrightarrow> status new = status old)
    \<and> (\<forall>s. u_status input = Some s \<longrightarrow> status new = s)
    \<and> (u_translated_file_path input = None
          \<longrightarrow> translated_file_path new = translated_file_path old)
    \<and> (\<forall>v. u_translated_file_path input = Some v \<longrightarrow> translated_file_path new = v)
    \<and> (u_transcript input = None \<longrightarrow> transcript new = transcript old)
    \<and> (\<forall>v. u_transcript input = Some v \<longrightarrow> transcript new = v)
    \<and> (u_translated_transcript input = None
          \<longrightarrow> translated_transcript new = translated_transcript old)
    \<and> (\<forall>v. u_translated_transcript input = Some v \<longrightarrow> translated_transcript new = v)
    \<and> (u_error_message input = None \<longrightarrow> error_message new = error_message old)
    \<and> (\<forall>v. u_error_message input = Some v \<longrightarrow> error_message new = v)
    \<and> filter (\<lambda>j. Finite (of_int (job_id j)) \<noteq> u_id input) (translation_jobs d') =
        filter (\<lambda>j. Finite (of_int (job_id j)) \<noteq> u_id input) (translation_jobs d)
    \<and> map job_id (translation_jobs d') = map job_id (translation_jobs d)
    \<and> translation_jobs_id_seq d' = translation_jobs_id_seq d))
  \<and> (\<not> update_texts_accepted input \<longrightarrow>
        updateTranslationJob now input d = (Inl DatabaseError, d))"
proof (intro conjI impI)
  assume ok: "update_texts_accepted input"
  from update_existing [OF assms ok, of now] obtain i where
    i: "as_int4 (u_id input) = Some i"
    and returned: "updateTranslationJob now input d =
        (Inr (Some (set_columns now input old)),
         d\<lparr>translation_jobs :=
             map (\<lambda>j. if job_id j = i then set_columns now input j else j)
               (translation_jobs d)\<rparr>)"
    and stored: "getTranslationJob \<lparr>g_id = u_id input\<rparr>
         (d\<lparr>translation_jobs :=
             map (\<lambda>j. if job_id j = i then set_columns now input j else j)
               (translation_jobs d)\<rparr>)
        = Inr (Some (set_columns now input old))"
    by blast
  from i have id: "u_id input = Finite (of_int i)"
    by (auto dest: as_int4_Some)
  let ?new = "set_columns now input old"
  let ?d' = "d\<lparr>translation_jobs :=
             map (\<lambda>j. if job_id j = i then set_columns now input j else j)
               (translation_jobs d)\<rparr>"
  show "\<exists>new d'. updateTranslationJob now input d = (Inr (Some new), d')
    \<and> getTranslationJob \<lparr>g_id = u_id input\<rparr> d' = Inr (Some new)
    \<and> job_id new = job_id old
    \<and> original_filename new = original_filename old
    \<and> original_file_path new = original_file_path old
    \<and> target_language new = target_language old
    \<and> created_at new = created_at old
    \<and> updated_at new = now
    \<and> (u_detected_language input = None \<longrightarrow> detected_language new = detected_language old)
    \<and> (\<forall>l. u_detected_language input = Some l \<longrightarrow> detected_language new = Some l)
    \<and> (u_status input = None \<longrightarrow> status new = status old)
    \<and> (\<forall>s. u_status input = Some s \<longrightarrow> status new = s)
    \<and> (u_translated_file_path input = None
          \<longrightarrow> translated_file_path new = translated_file_path old)
    \<and> (\<forall>v. u_translated_file_path input = Some v \<longrightarrow> translated_file_path new = v)
    \<and> (u_transcript input = None \<longrightarrow> transcript new = transcript old)
    \<and> (\<forall>v. u_transcript input = Some v \<longrightarrow> transcript new = v)
    \<and> (u_translated_transcript input = None
          \<longrightarrow> translated_transcript new = translated_transcript old)
    \<and> (\<forall>v. u_translated_transcript input = Some v \<longrightarrow> translated_transcript new = v)
    \<and> (u_error_message input = None \<longrightarrow> error_message new = error_message old)
    \<and> (\<forall>v. u_error_message input = Some v \<longrightarrow> error_message new = v)
    \<and> filter (\<lambda>j. Finite (of_int (job_id j)) \<noteq> u_id input) (translation_jobs d') =
        filter (\<lambda>j. Finite (of_int (job_id j)) \<noteq> u_id input) (translation_jobs d)
    \<and> map job_id (translation_jobs d') = map job_id (translation_jobs d)
    \<and> translation_jobs_id_seq d' = translation_jobs_id_seq d"
    apply (intro exI [of _ ?new] exI [of _ ?d'] conjI)
    apply (rule returned)
    apply (rule stored)
    apply (simp_all add: set_columns_def id filter_others_update_rows map_job_id_update_rows)
    done
next
  assume "\<not> update_texts_accepted input"
  then show "updateTranslationJob now input d = (Inl DatabaseError, d)"
    by (simp add: updateTranslationJob_refused)
qed

theorem update_changes_supplied_fields_only_witness:
  "(\<exists>new d'. updateTranslationJob 9 clear_input annotated_database = (Inr (Some new), d')
     \<and> getTranslationJob \<lparr>g_id = Finite 1\<rparr> d' = Inr (Some new)
     \<and> transcript new = None \<and> error_message new = None
     \<and> status new = Pending \<and> translated_file_path new = None
     \<and> original_filename new = ''clip.mp4'' \<and> created_at new = 7 \<and> updated_at new = 9)
   \<and> updateTranslationJob 9 nul_transcript_input annotated_database
       = (Inl DatabaseError, annotated_database)"
proof -
  have id: "u_id clear_input = Finite 1" and tr: "u_transcript clear_input = Some None"
    and em: "u_error_message clear_input = Some None"
    and st: "u_status clear_input = None" and tf: "u_translated_file_path clear_input = None"
    and ok: "update_texts_accepted clear_input"
    by (simp_all add: clear_input_def no_fields_def update_texts_accepted_def
          supplied_text_accepted_def nullable_text_accepted_def)
  have old: "status annotated_job = Pending" "translated_file_path annotated_job = None"
    "original_filename annotated_job = ''clip.mp4''" "created_at annotated_job = 7"
    by (simp_all add: annotated_job_def clip_job_def)
  have get: "getTranslationJob \<lparr>g_id = u_id clear_input\<rparr> annotated_database
      = Inr (Some annotated_job)"
    by (simp add: id annotated_database_get)
  have id': "u_id nul_transcript_input = Finite 1"
    and bad: "\<not> update_texts_accepted nul_transcript_input"
    by (simp_all add: nul_transcript_input_def no_fields_def update_texts_accepted_def
          supplied_text_accepted_def nullable_text_accepted_def text_accepted_def)
  have get': "getTranslationJob \<lparr>g_id = u_id nul_transcript_input\<rparr> annotated_database
      = Inr (Some annotated_job)"
    by (simp add: id' annotated_database_get)
  have first: "\<exists>new d'. updateTranslationJob 9 clear_input annotated_database = (Inr (Some new), d')
     \<and> getTranslationJob \<lparr>g_id = Finite 1\<rparr> d' = Inr (Some new)
     \<and> transcript new = None \<and> error_message new = None
     \<and> status new = Pending \<and> translated_file_path new = None
     \<and> original_filename new = ''clip.mp4'' \<and> created_at new = 7 \<and> updated_at new = 9"
    using update_changes_supplied_fields_only [OF get, of 9, THEN conjunct1, THEN mp, OF ok]
    apply (elim exE conjE)
    apply (intro exI conjI)
    apply assumption
    apply (simp_all add: id tr em st tf old)
    done
  have second: "updateTranslationJob 9 nul_transcript_input annotated_database
       = (Inl DatabaseError, annotated_database)"
    using update_changes_supplied_fields_only [OF get', of 9, THEN conjunct2] bad
    by (rule mp)
  from first second show ?thesis by (rule conjI)
qed

text \<open>
  Claim C7, as stated, fails where it says that the update strictly increases
  \<^verbatim>\<open>updated_at\<close>. The job below is created at database time 5 and updated, with the input
  \<^verbatim>\<open>{ id: 1 }\<close>, when the server's clock also reads 5: the update returns the job
  unchanged, so \<^verbatim>\<open>updated_at\<close> is 5 before and after.
\<close>

theorem empty_update_same_instant_counterexample:
  "getTranslationJob \<lparr>g_id = Finite 1\<rparr> (clip_database 5) = Inr (Some (clip_job 5))
   \<and> updateTranslationJob 5 (no_fields (Finite 1)) (clip_database 5)
       = (Inr (Some (clip_job 5)), clip_database 5)
   \<and> updated_at (clip_job 5) = 5
   \<and> (case fst (updateTranslationJob 5 (no_fields (Finite 1)) (clip_database 5)) of
         Inr (Some new) \<Rightarrow> \<not> updated_at (clip_job 5) < updated_at new
       | _ \<Rightarrow> False)"
  by (simp add: clip_database_eq clip_job_def no_fields_def handler_defs)

lemma set_columns_no_fields: "set_columns now (no_fields i) j = j\<lparr>updated_at := now\<rparr>"
  by (simp add: set_columns_def no_fields_def)

text \<open>
  Claim C7, amended. An update of a stored job succeeds exactly when the texts it
  supplies are free of U+0000; the update that names no column always does. Every
  successful update of a stored job returns and stores a job whose \<^verbatim>\<open>updated_at\<close> is the
  clock reading of the call, whatever the supplied values are. When the input names no
  column, the new job is the old one with \<^verbatim>\<open>updated_at\<close> replaced by that reading and
  nothing else changed. \<^verbatim>\<open>updated_at\<close> strictly increases exactly when the reading is
  later than the stored value.
\<close>

theorem update_sets_updated_at_to_now:
  assumes "getTranslationJob \<lparr>g_id = u_id input\<rparr> d = Inr (Some old)"
  shows "(\<exists>r d'. updateTranslationJob now input d = (Inr r, d')) = update_texts_accepted input
    \<and> update_texts_accepted (no_fields (u_id input))
    \<and> (update_texts_accepted input \<longrightarrow>
        (\<exists>new d'. updateTranslationJob now input d = (Inr (Some new), d')
          \<and> getTranslationJob \<lparr>g_id = u_id input\<rparr> d' = Inr (Some new)
          \<and> updated_at new = now
          \<and> (input = no_fields (u_id input) \<longrightarrow> new = old\<lparr>updated_at := now\<rparr>)
          \<and> (updated_at old < updated_at new) = (updated_at old < now)))"
proof (intro conjI impI)
  show "(\<exists>r d'. updateTranslationJob now input d = (Inr r, d')) = update_texts_accepted input"
    using assms by (rule update_succeeds_iff)
  show "update_texts_accepted (no_fields (u_id input))"
    by (rule no_fields_accepted)
next
  assume ok: "update_texts_accepted input"
  from update_existing [OF assms ok, of now] obtain i where
    returned: "updateTranslationJob now input d =
        (Inr (Some (set_columns now input old)),
         d\<lparr>translation_jobs :=
             map (\<lambda>j. if job_id j = i then set_columns now input j else j)
               (translation_jobs d)\<rparr>)"
    and stored: "getTranslationJob \<lparr>g_id = u_id input\<rparr>
         (d\<lparr>translation_jobs :=
             map (\<lambda>j. if job_id j = i then set_columns now input j else j)
               (translation_jobs d)\<rparr>)
        = Inr (Some (set_columns now input old))"
    by blast
  let ?new = "set_columns now input old"
  have stamp: "updated_at ?new = now"
    by (simp add: set_columns_def)
  have only: "input = no_fields (u_id input) \<longrightarrow> ?new = old\<lparr>updated_at := now\<rparr>"
    using set_columns_no_fields [of now "u_id input" old] by auto
  show "\<exists>new d'. updateTranslationJob now input d = (Inr (Some new), d')
          \<and> getTranslationJob \<lparr>g_id = u_id input\<rparr> d' = Inr (Some new)
          \<and> updated_at new = now
          \<and> (input = no_fields (u_id input) \<longrightarrow> new = old\<lparr>updated_at := now\<rparr>)
          \<and> (updated_at old < updated_at new) = (updated_at old < now)"
    apply (intro exI [of _ ?new] exI conjI)
    apply (rule returned)
    apply (rule stored)
    apply (rule stamp)
    apply (rule only)
    apply (simp add: stamp)
    done
qed

theorem update_sets_updated_at_to_now_witness:
  "\<exists>new d'. updateTranslationJob 6 (no_fields (Finite 1)) (clip_database 5) = (Inr (Some new), d')
     \<and> getTranslationJob \<lparr>g_id = Finite 1\<rparr> d' = Inr (Some new)
     \<and> new = (clip_job 5)\<lparr>updated_at := 6\<rparr>
     \<and> updated_at (clip_job 5) < updated_at new"
proof -
  have id: "u_id (no_fields (Finite 1)) = Finite 1"
    by (simp add: no_fields_def)
  have get: "getTranslationJob \<lparr>g_id = u_id (no_fields (Finite 1))\<rparr> (clip_database 5)
      = Inr (Some (clip_job 5))"
    by (simp add: id clip_database_get)
  have before: "updated_at (clip_job 5) = 5"
    by (simp add: clip_job_def)
  from update_sets_updated_at_to_now [OF get, of 6]
  show ?thesis
    unfolding id using before by fastforce
qed

subsection \<open>Order of the two timestamps\<close>

lemma insert_returning_cases:
  "(\<exists>job. insert_returning db_now v d =
        (Inr job, \<lparr>translation_jobs = translation_jobs d @ [job],
                   translation_jobs_id_seq = translation_jobs_id_seq d + 1\<rparr>)
      \<and> created_at job = db_now \<and> updated_at job = db_now
      \<and> job_id job = translation_jobs_id_seq d + 1
      \<and> original_file_path job = new_original_file_path v)
   \<or> insert_returning db_now v d = (Inl DatabaseError, d)"
  by (simp add: insert_returning_def Let_def)

lemma timestamps_ordered_insert:
  "timestamps_ordered (snd (insert_returning db_now v d)) = timestamps_ordered d"
  using insert_returning_cases [of db_now v d]
  by (auto simp: timestamps_ordered_def)

lemma insert_returning_stamps:
  "fst (insert_returning db_now v d) = Inr job \<Longrightarrow> created_at job = updated_at job"
  using insert_returning_cases [of db_now v d] by auto

lemma uploadVideo_cases:
  "(fst (uploadVideo rt date_now randomId db_now input s) = Inl FileSystemError
      \<and> st_db (snd (uploadVideo rt date_now randomId db_now input s)) = st_db s)
   \<or> (fst (uploadVideo rt date_now randomId db_now input s) =
        fst (insert_returning db_now
           \<lparr>new_original_filename = v_filename input,
            new_original_file_path = upload_path date_now randomId (v_filename input),
            new_target_language = v_target_language input,
            new_status = Some Pending,
            new_detected_language = None,
            new_translated_file_path = None,
            new_transcript = None,
            new_translated_transcript = None,
            new_error_message = None\<rparr> (st_db s))
      \<and> st_db (snd (uploadVideo rt date_now randomId db_now input s)) =
        snd (insert_returning db_now
           \<lparr>new_original_filename = v_filename input,
            new_original_file_path = upload_path date_now randomId (v_filename input),
            new_target_language = v_target_language input,
            new_status = Some Pending,
            new_detected_language = None,
            new_translated_file_path = None,
            new_transcript = None,
            new_translated_transcript = None,
            new_error_message = None\<rparr> (st_db s)))"
  by (simp add: uploadVideo_def Let_def split_beta split: option.splits)

lemma list_all_update_rows:
  "list_all (\<lambda>j. created_at j \<le> updated_at j) js \<Longrightarrow>
   list_all (\<lambda>j. created_at j \<le> updated_at j)
     (map (\<lambda>j. if job_id j = k then set_columns now input j else j) js) =
   (\<forall>j\<in>set js. job_id j = k \<longrightarrow> created_at j \<le> now)"
  by (induction js) (auto simp: set_columns_def)

lemma updateTranslationJob_cases:
  "(\<exists>i. as_int4 (u_id input) = Some i \<and> u_id input = Finite (of_int i)
        \<and> update_texts_accepted input
        \<and> updateTranslationJob now input d =
            (Inr (case select_where_id i d of [] \<Rightarrow> None
                  | job # _ \<Rightarrow> Some (set_columns now input job)),
             d\<lparr>translation_jobs :=
                 map (\<lambda>j. if job_id j = i then set_columns now input j else j)
                   (translation_jobs d)\<rparr>))
   \<or> updateTranslationJob now input d = (Inl DatabaseError, d)"
proof (cases "as_int4 (u_id input)")
  case None
  then show ?thesis by (simp add: updateTranslationJob_refused)
next
  case (Some i)
  show ?thesis
  proof (cases "update_texts_accepted input")
    case True
    from Some have "u_id input = Finite (of_int i)" by (auto dest: as_int4_Some)
    with Some True updateTranslationJob_accepted [OF Some True, of now d]
    show ?thesis by blast
  next
    case False
    then show ?thesis by (simp add: updateTranslationJob_refused)
  qed
qed

text \<open>
  Claim C8, amended. \<open>timestamps_ordered\<close> says that every row has \<^verbatim>\<open>created_at\<close> no later
  than \<^verbatim>\<open>updated_at\<close>. It holds of the empty store; creating a job and uploading a video
  add, when they succeed, a row whose two timestamps are equal, and leave the others
  alone; and an update that succeeds on a store where it holds keeps it exactly when
  the server's clock reading is not earlier than the \<^verbatim>\<open>created_at\<close> of every row it
  rewrites. The handler writes that reading without comparing it to \<^verbatim>\<open>created_at\<close>,
  which came from the database's clock. An update that the database refuses writes
  nothing.
\<close>

theorem timestamps_ordered_steps:
  "timestamps_ordered empty_database
   \<and> timestamps_ordered (snd (createTranslationJob db_now cinput d)) = timestamps_ordered d
   \<and> (\<forall>job. fst (createTranslationJob db_now cinput d) = Inr job
         \<longrightarrow> created_at job = updated_at job)
   \<and> timestamps_ordered (st_db (snd (uploadVideo rt date_now randomId db_now vinput s)))
       = timestamps_ordered (st_db s)
   \<and> (\<forall>job. fst (uploadVideo rt date_now randomId db_now vinput s) = Inr job
         \<longrightarrow> created_at job = updated_at job)
   \<and> (timestamps_ordered d \<and> (\<exists>r. fst (updateTranslationJob now uinput d) = Inr r) \<longrightarrow>
        timestamps_ordered (snd (updateTranslationJob now uinput d)) =
          (\<forall>j\<in>set (translation_jobs d).
              Finite (of_int (job_id j)) = u_id uinput \<longrightarrow> created_at j \<le> now))
   \<and> ((\<exists>e. fst (updateTranslationJob now uinput d) = Inl e)
         \<longrightarrow> snd (updateTranslationJob now uinput d) = d)"
proof -
  have "timestamps_ordered empty_database"
    by (simp add: timestamps_ordered_def empty_database_def)
  moreover have "timestamps_ordered (snd (createTranslationJob db_now cinput d))
      = timestamps_ordered d"
    by (simp add: createTranslationJob_def timestamps_ordered_insert)
  moreover have "\<forall>job. fst (createTranslationJob db_now cinput d) = Inr job
         \<longrightarrow> created_at job = updated_at job"
    by (auto simp: createTranslationJob_def dest: insert_returning_stamps)
  moreover have "timestamps_ordered (st_db (snd (uploadVideo rt date_now randomId db_now vinput s)))
       = timestamps_ordered (st_db s)"
    using uploadVideo_cases [of rt date_now randomId db_now vinput s]
    by (auto simp: timestamps_ordered_insert)
  moreover have "\<forall>job. fst (uploadVideo rt date_now randomId db_now vinput s) = Inr job
         \<longrightarrow> created_at job = updated_at job"
    using uploadVideo_cases [of rt date_now randomId db_now vinput s]
    by (auto dest: insert_returning_stamps)
  moreover have "timestamps_ordered d \<and> (\<exists>r. fst (updateTranslationJob now uinput d) = Inr r) \<longrightarrow>
        timestamps_ordered (snd (updateTranslationJob now uinput d)) =
          (\<forall>j\<in>set (translation_jobs d).
              Finite (of_int (job_id j)) = u_id uinput \<longrightarrow> created_at j \<le> now)"
    using updateTranslationJob_cases [of uinput now d]
    by (auto simp: timestamps_ordered_def list_all_update_rows)
  moreover have "(\<exists>e. fst (updateTranslationJob now uinput d) = Inl e)
         \<longrightarrow> snd (updateTranslationJob now uinput d) = d"
    using updateTranslationJob_cases [of uinput now d] by auto
  ultimately show ?thesis by (intro conjI)
qed

theorem timestamps_ordered_steps_witness:
  "timestamps_ordered (clip_database 5)
   \<and> timestamps_ordered (snd (updateTranslationJob 6 (no_fields (Finite 1)) (clip_database 5)))
   \<and> created_at (clip_job 5) = updated_at (clip_job 5)"
proof -
  have rows: "translation_jobs (clip_database 5) = [clip_job 5]"
    by (simp add: clip_database_eq)
  have at: "created_at (clip_job 5) = 5"
    by (simp add: clip_job_def)
  have created: "fst (createTranslationJob 5 clip_input empty_database) = Inr (clip_job 5)"
    by (simp add: clip_created)
  have updated: "\<exists>r. fst (updateTranslationJob 6 (no_fields (Finite 1)) (clip_database 5)) = Inr r"
    by (simp add: clip_database_eq clip_job_def no_fields_def handler_defs)
  note steps = timestamps_ordered_steps
  from steps [THEN conjunct1]
    steps [THEN conjunct2, THEN conjunct1, of 5 clip_input empty_database]
  have base: "timestamps_ordered (clip_database 5)"
    by (simp add: clip_database_def)
  from steps [THEN conjunct2, THEN conjunct2, THEN conjunct1, of 5 clip_input empty_database]
    created
  have eq: "created_at (clip_job 5) = updated_at (clip_job 5)"
    by blast
  from steps [THEN conjunct2, THEN conjunct2, THEN conjunct2, THEN conjunct2, THEN conjunct2,
      THEN conjunct1, of "clip_database 5" 6 "no_fields (Finite 1)"] base updated
  have "timestamps_ordered (snd (updateTranslationJob 6 (no_fields (Finite 1)) (clip_database 5)))"
    by (simp add: rows at)
  with base eq show ?thesis by simp
qed

text \<open>
  Claim C8, as stated, fails: the job is created at database time 5, and an update made
  when the server's clock reads 3 stores \<^verbatim>\<open>updated_at\<close> = 3 under \<^verbatim>\<open>created_at\<close> = 5.
\<close>

theorem update_before_creation_counterexample:
  "timestamps_ordered (clip_database 5)
   \<and> updateTranslationJob 3 (no_fields (Finite 1)) (clip_database 5) =
       (Inr (Some ((clip_job 5)\<lparr>updated_at := 3\<rparr>)),
        (clip_database 5)\<lparr>translation_jobs := [(clip_job 5)\<lparr>updated_at := 3\<rparr>]\<rparr>)
   \<and> created_at ((clip_job 5)\<lparr>updated_at := 3\<rparr>) = 5
   \<and> \<not> timestamps_ordered (snd (updateTranslationJob 3 (no_fields (Finite 1)) (clip_database 5)))"
  by (simp add: clip_database_eq clip_job_def no_fields_def handler_defs timestamps_ordered_def)

subsection \<open>The detected language\<close>

lemma z_optional_language_JNull:
  "z_optional supportedLanguagesSchema JNull = None"
  by (simp add: z_optional_def supportedLanguagesSchema_def)

lemma updateTranslationJobInputSchema_null_language:
  "ru_detected_language raw = JNull \<Longrightarrow> updateTranslationJobInputSchema raw = None"
  by (simp add: updateTranslationJobInputSchema_def z_optional_language_JNull
        split: bind_splits)

lemma detected_language_set_columns:
  "detected_language j = Some l \<Longrightarrow> \<exists>l'. detected_language (set_columns now input j) = Some l'"
  by (cases "u_detected_language input") (simp_all add: set_columns_def)

lemma updateTranslationJob_keeps_detected:
  assumes "getTranslationJob \<lparr>g_id = n\<rparr> d = Inr (Some old)" and "detected_language old = Some l"
  shows "\<exists>new l'. getTranslationJob \<lparr>g_id = n\<rparr> (snd (updateTranslationJob now input d))
            = Inr (Some new) \<and> detected_language new = Some l'"
proof -
  from assms(1) obtain i rest where
    i: "as_int4 n = Some i" and sel: "select_where_id i d = old # rest"
    by (auto dest: getTranslationJob_Some)
  from updateTranslationJob_cases [of input now d] show ?thesis
  proof
    assume "\<exists>k. as_int4 (u_id input) = Some k \<and> u_id input = Finite (of_int k)
        \<and> update_texts_accepted input
        \<and> updateTranslationJob now input d =
            (Inr (case select_where_id k d of [] \<Rightarrow> None
                  | job # _ \<Rightarrow> Some (set_columns now input job)),
             d\<lparr>translation_jobs :=
                 map (\<lambda>j. if job_id j = k then set_columns now input j else j)
                   (translation_jobs d)\<rparr>)"
    then obtain k where d': "snd (updateTranslationJob now input d) =
        d\<lparr>translation_jobs :=
            map (\<lambda>j. if job_id j = k then set_columns now input j else j)
              (translation_jobs d)\<rparr>"
      by auto
    show ?thesis
    proof (cases "k = i")
      case True
      then have "getTranslationJob \<lparr>g_id = n\<rparr> (snd (updateTranslationJob now input d))
          = Inr (Some (set_columns now input old))"
        using i by (simp add: d' getTranslationJob_accepted select_where_id_rewritten sel)
      with detected_language_set_columns [OF assms(2), of now input] show ?thesis
        by auto
    next
      case False
      then have "getTranslationJob \<lparr>g_id = n\<rparr> (snd (updateTranslationJob now input d))
          = Inr (Some old)"
        using i by (simp add: d' getTranslationJob_accepted select_where_id_rewritten sel)
      with assms(2) show ?thesis by simp
    qed
  next
    assume "updateTranslationJob now input d = (Inl DatabaseError, d)"
    with assms show ?thesis by simp
  qed
qed

lemma appRouter_update_keeps_detected:
  assumes "getTranslationJob \<lparr>g_id = n\<rparr> d = Inr (Some old)" and "detected_language old = Some l"
  shows "\<exists>new l'. getTranslationJob \<lparr>g_id = n\<rparr> (snd (appRouter_updateTranslationJob now raw d))
            = Inr (Some new) \<and> detected_language new = Some l'"
proof (cases "updateTranslationJobInputSchema raw")
  case None
  then show ?thesis
    using assms by (simp add: appRouter_updateTranslationJob_def)
next
  case (Some input)
  have "snd (appRouter_updateTranslationJob now raw d) = snd (updateTranslationJob now input d)"
    by (simp add: appRouter_updateTranslationJob_def Some split_beta)
  with updateTranslationJob_keeps_detected [OF assms, of now input] show ?thesis
    by simp
qed

text \<open>
  Claim C10. If the job stored under an id has a detected language, then after any run
  of update requests through the gateway (any ids, any raw fields, any clock readings)
  the job stored under that id still has one. The schema takes \<^verbatim>\<open>detected_language\<close> as a
  language code or as an omitted key; a request that gives it as null fails the parse,
  is answered with the validation error and leaves the store as it was.
\<close>

theorem detected_language_never_cleared:
  assumes "getTranslationJob \<lparr>g_id = i\<rparr> d = Inr (Some old)" and "detected_language old = Some l"
  shows "(\<exists>new l'. getTranslationJob \<lparr>g_id = i\<rparr> (update_requests calls d) = Inr (Some new)
            \<and> detected_language new = Some l')
       \<and> (ru_detected_language raw = JNull
            \<longrightarrow> appRouter_updateTranslationJob now raw d = (Inl BAD_REQUEST, d))"
proof
  show "\<exists>new l'. getTranslationJob \<lparr>g_id = i\<rparr> (update_requests calls d) = Inr (Some new)
            \<and> detected_language new = Some l'"
    using assms
  proof (induction calls arbitrary: d old l)
    case Nil
    then show ?case by simp
  next
    case (Cons call calls)
    obtain t r where call: "call = (t, r)" by (cases call)
    from appRouter_update_keeps_detected [OF Cons.prems, of t r]
    obtain new l' where
      "getTranslationJob \<lparr>g_id = i\<rparr> (snd (appRouter_updateTranslationJob t r d)) = Inr (Some new)"
      and "detected_language new = Some l'"
      by blast
    from Cons.IH [OF this] show ?case
      by (simp add: call)
  qed
  show "ru_detected_language raw = JNull
          \<longrightarrow> appRouter_updateTranslationJob now raw d = (Inl BAD_REQUEST, d)"
    by (simp add: appRouter_updateTranslationJob_def updateTranslationJobInputSchema_null_language)
qed

lemma detected_database_get:
  "getTranslationJob \<lparr>g_id = Finite 1\<rparr> detected_database
     = Inr (Some ((clip_job 5)\<lparr>detected_language := Some Lang_en, updated_at := 6\<rparr>))"
  by (simp add: detected_database_def clip_database_eq clip_job_def no_fields_def handler_defs)

theorem detected_language_never_cleared_witness:
  "(\<exists>new l'. getTranslationJob \<lparr>g_id = Finite 1\<rparr> (update_requests detect_then_others detected_database)
       = Inr (Some new) \<and> detected_language new = Some l')
   \<and> appRouter_updateTranslationJob 8 (snd (hd detect_then_others)) detected_database
       = (Inl BAD_REQUEST, detected_database)"
proof -
  have "detected_language ((clip_job 5)\<lparr>detected_language := Some Lang_en, updated_at := 6\<rparr>)
      = Some Lang_en"
    by simp
  moreover have "ru_detected_language (snd (hd detect_then_others)) = JNull"
    by (simp add: detect_then_others_def)
  ultimately show ?thesis
    using detected_language_never_cleared [OF detected_database_get,
      of Lang_en detect_then_others "snd (hd detect_then_others)" 8]
    by blast
qed

subsection \<open>The language catalogue\<close>

lemmas locale_defs =
  localeCompare_def base_letter_def case_weight_def is_upper_def Let_def

lemma getSupportedLanguages_value:
  "getSupportedLanguages =
     [\<lparr>code = Lang_ar, name = ''Arabic''\<rparr>, \<lparr>code = Lang_zh, name = ''Chinese''\<rparr>,
      \<lparr>code = Lang_en, name = ''English''\<rparr>, \<lparr>code = Lang_fr, name = ''French''\<rparr>,
      \<lparr>code = Lang_de, name = ''German''\<rparr>, \<lparr>code = Lang_hi, name = ''Hindi''\<rparr>,
      \<lparr>code = Lang_it, name = ''Italian''\<rparr>, \<lparr>code = Lang_ja, name = ''Japanese''\<rparr>,
      \<lparr>code = Lang_ko, name = ''Korean''\<rparr>, \<lparr>code = Lang_pt, name = ''Portuguese''\<rparr>,
      \<lparr>code = Lang_ru, name = ''Russian''\<rparr>, \<lparr>code = Lang_es, name = ''Spanish''\<rparr>]"
  by (simp add: getSupportedLanguages_def languageNames_def array_sort_def locale_defs)

lemma supportedLanguages_all: "set supportedLanguages = UNIV"
proof -
  have "l \<in> set supportedLanguages" for l
    by (cases l) (simp_all add: supportedLanguages_def)
  then show ?thesis by blast
qed

lemma mset_sort_insert: "mset (sort_insert cmp x xs) = add_mset x (mset xs)"
  by (induction xs) simp_all

lemma mset_array_sort: "mset (array_sort cmp xs) = mset xs"
  unfolding array_sort_def by (induction xs) (simp_all add: mset_sort_insert)

text \<open>
  Claim C6. The catalogue is the twelve entries below, Arabic to Spanish: twelve entries,
  no code twice, no name twice, the codes exactly those of the enum (which are twelve
  and distinct), the entries those of \<^verbatim>\<open>languageNames\<close>, and each name strictly before the
  next under \<open>localeCompare\<close>. The procedure takes no input: its answer is the same in
  every state of the store, and it leaves the store as it was.
\<close>

theorem getSupportedLanguages_catalogue:
  "getSupportedLanguages =
     [\<lparr>code = Lang_ar, name = ''Arabic''\<rparr>, \<lparr>code = Lang_zh, name = ''Chinese''\<rparr>,
      \<lparr>code = Lang_en, name = ''English''\<rparr>, \<lparr>code = Lang_fr, name = ''French''\<rparr>,
      \<lparr>code = Lang_de, name = ''German''\<rparr>, \<lparr>code = Lang_hi, name = ''Hindi''\<rparr>,
      \<lparr>code = Lang_it, name = ''Italian''\<rparr>, \<lparr>code = Lang_ja, name = ''Japanese''\<rparr>,
      \<lparr>code = Lang_ko, name = ''Korean''\<rparr>, \<lparr>code = Lang_pt, name = ''Portuguese''\<rparr>,
      \<lparr>code = Lang_ru, name = ''Russian''\<rparr>, \<lparr>code = Lang_es, name = ''Spanish''\<rparr>]
   \<and> length getSupportedLanguages = 12
   \<and> distinct (map code getSupportedLanguages)
   \<and> distinct (map name getSupportedLanguages)
   \<and> set (map code getSupportedLanguages) = set supportedLanguages
   \<and> length supportedLanguages = 12 \<and> distinct supportedLanguages
   \<and> mset getSupportedLanguages = mset (map (\<lambda>(c, n). \<lparr>code = c, name = n\<rparr>) languageNames)
   \<and> sorted_wrt (\<lambda>a b. localeCompare (name a) (name b) < 0) getSupportedLanguages
   \<and> fst (appRouter_getSupportedLanguages d) = fst (appRouter_getSupportedLanguages d')
   \<and> snd (appRouter_getSupportedLanguages d) = d"
proof -
  note getSupportedLanguages_value
  moreover have "length getSupportedLanguages = 12"
    by (simp add: getSupportedLanguages_value)
  moreover have "distinct (map code getSupportedLanguages)"
    by (simp add: getSupportedLanguages_value)
  moreover have "distinct (map name getSupportedLanguages)"
    by (simp add: getSupportedLanguages_value)
  moreover have "set (map code getSupportedLanguages) = set supportedLanguages"
    by (simp add: supportedLanguages_all) (auto simp: getSupportedLanguages_value intro: SupportedLanguage.exhaust)
  moreover have "length supportedLanguages = 12 \<and> distinct supportedLanguages"
    by (simp add: supportedLanguages_def)
  moreover have "mset getSupportedLanguages = mset (map (\<lambda>(c, n). \<lparr>code = c, name = n\<rparr>) languageNames)"
    by (simp add: getSupportedLanguages_def mset_array_sort)
  moreover have "sorted_wrt (\<lambda>a b. localeCompare (name a) (name b) < 0) getSupportedLanguages"
    by (simp add: getSupportedLanguages_value locale_defs)
  moreover have "fst (appRouter_getSupportedLanguages d) = fst (appRouter_getSupportedLanguages d')
   \<and> snd (appRouter_getSupportedLanguages d) = d"
    by (simp add: appRouter_getSupportedLanguages_def)
  ultimately show ?thesis by (intro conjI) (simp_all only:)
qed

subsection \<open>Storage paths\<close>

lemma of_char_digit_char: "n < 10 \<Longrightarrow> of_char (digit_char n) = 48 + n"
  by (simp add: digit_char_def)

lemma digit_char_inj: "m < 10 \<Longrightarrow> n < 10 \<Longrightarrow> digit_char m = digit_char n \<Longrightarrow> m = n"
  by (metis of_char_digit_char add_left_cancel)

lemma digit_char_not_underscore: "n < 10 \<Longrightarrow> digit_char n \<noteq> CHR ''_''"
proof
  assume "n < 10" and "digit_char n = CHR ''_''"
  then have "(of_char (digit_char n) :: nat) = of_char CHR ''_''" by simp
  with \<open>n < 10\<close> show False by (simp add: of_char_digit_char)
qed

lemma number_toString_not_Nil: "number_toString n \<noteq> []"
  by (subst number_toString.simps) simp

lemma number_toString_no_underscore: "CHR ''_'' \<notin> set (number_toString n)"
proof (induction n rule: number_toString.induct)
  case (1 n)
  show ?case
  proof (cases "n < 10")
    case True
    then show ?thesis
      using digit_char_not_underscore [of n]
      by (subst number_toString.simps) auto
  next
    case False
    with 1 digit_char_not_underscore [of "n mod 10"] show ?thesis
      by (subst number_toString.simps) auto
  qed
qed

lemma number_toString_inj: "number_toString m = number_toString n \<Longrightarrow> m = n"
proof (induction m arbitrary: n rule: number_toString.induct)
  case (1 m)
  show ?case
  proof (cases "m < 10")
    case True
    then have m: "number_toString m = [digit_char m]"
      by (subst number_toString.simps) simp
    show ?thesis
    proof (cases "n < 10")
      case n: True
      then have "number_toString n = [digit_char n]"
        by (subst number_toString.simps) simp
      with m "1.prems" True n show ?thesis
        by (auto dest: digit_char_inj)
    next
      case False
      then have "number_toString n = number_toString (n div 10) @ [digit_char (n mod 10)]"
        by (subst number_toString.simps) simp
      with m "1.prems" number_toString_not_Nil [of "n div 10"] show ?thesis
        by (auto simp: Cons_eq_append_conv)
    qed
  next
    case False
    then have m: "number_toString m = number_toString (m div 10) @ [digit_char (m mod 10)]"
      by (subst number_toString.simps) simp
    show ?thesis
    proof (cases "n < 10")
      case True
      then have "number_toString n = [digit_char n]"
        by (subst number_toString.simps) simp
      with m "1.prems" number_toString_not_Nil [of "m div 10"] show ?thesis
        by (auto simp: append_eq_Cons_conv)
    next
      case n: False
      then have "number_toString n = number_toString (n div 10) @ [digit_char (n mod 10)]"
        by (subst number_toString.simps) simp
      with m "1.prems" have eq: "number_toString (m div 10) = number_toString (n div 10)"
        and dg: "digit_char (m mod 10) = digit_char (n mod 10)"
        by simp_all
      from "1.IH" [OF False eq] have "m div 10 = n div 10" .
      moreover have "m mod 10 = n mod 10"
        by (rule digit_char_inj [OF _ _ dg]) simp_all
      ultimately show ?thesis
        by (metis div_mult_mod_eq)
    qed
  qed
qed

lemma takeWhile_until:
  "x \<notin> set a \<Longrightarrow> takeWhile (\<lambda>c. c \<noteq> x) (a @ x # r) = a"
  by (induction a) auto

lemma split_at_underscore:
  assumes "a @ CHR ''_'' # r = b @ CHR ''_'' # q"
    and "CHR ''_'' \<notin> set a" and "CHR ''_'' \<notin> set b"
  shows "a = b \<and> r = q"
proof -
  have "takeWhile (\<lambda>c. c \<noteq> CHR ''_'') (a @ CHR ''_'' # r) = a"
    using assms(2) by (rule takeWhile_until)
  moreover have "takeWhile (\<lambda>c. c \<noteq> CHR ''_'') (b @ CHR ''_'' # q) = b"
    using assms(3) by (rule takeWhile_until)
  ultimately have "a = b" using assms(1) by simp
  with assms(1) show ?thesis by simp
qed

lemma upload_path_eq_iff:
  "upload_path t1 r1 f = upload_path t2 r2 f \<longleftrightarrow> t1 = t2 \<and> r1 = r2"
proof
  assume "upload_path t1 r1 f = upload_path t2 r2 f"
  then have "number_toString t1 @ CHR ''_'' # (r1 @ CHR ''_'' # f)
           = number_toString t2 @ CHR ''_'' # (r2 @ CHR ''_'' # f)"
    by (simp add: upload_path_def)
  from split_at_underscore [OF this number_toString_no_underscore number_toString_no_underscore]
  show "t1 = t2 \<and> r1 = r2"
    by (auto dest: number_toString_inj)
next
  assume "t1 = t2 \<and> r1 = r2"
  then show "upload_path t1 r1 f = upload_path t2 r2 f" by simp
qed


subsection \<open>Uploads\<close>

lemma uploadVideo_outcome:
  "(fst (uploadVideo rt date_now randomId db_now input s) \<in> {Inl FileSystemError, Inl DatabaseError}
      \<and> st_db (snd (uploadVideo rt date_now randomId db_now input s)) = st_db s)
   \<or> (\<exists>job. fst (uploadVideo rt date_now randomId db_now input s) = Inr job
      \<and> st_db (snd (uploadVideo rt date_now randomId db_now input s)) =
          \<lparr>translation_jobs = translation_jobs (st_db s) @ [job],
           translation_jobs_id_seq = translation_jobs_id_seq (st_db s) + 1\<rparr>
      \<and> job_id job = translation_jobs_id_seq (st_db s) + 1
      \<and> original_file_path job = upload_path date_now randomId (v_filename input))"
  using uploadVideo_cases [of rt date_now randomId db_now input s]
    insert_returning_cases [of db_now
      "\<lparr>new_original_filename = v_filename input,
        new_original_file_path = upload_path date_now randomId (v_filename input),
        new_target_language = v_target_language input,
        new_status = Some Pending,
        new_detected_language = None,
        new_translated_file_path = None,
        new_transcript = None,
        new_translated_transcript = None,
        new_error_message = None\<rparr>" "st_db s"]
  by auto

lemma upload_all_Cons:
  "upload_all rt (c # rest) s =
     (fst (uploadVideo rt (fst c) (fst (snd c)) (fst (snd (snd c))) (snd (snd (snd c))) s)
        # fst (upload_all rt rest
            (snd (uploadVideo rt (fst c) (fst (snd c)) (fst (snd (snd c)))
                    (snd (snd (snd c))) s))),
      snd (upload_all rt rest
            (snd (uploadVideo rt (fst c) (fst (snd c)) (fst (snd (snd c)))
                    (snd (snd (snd c))) s))))"
  by (cases c) (simp add: split_beta Let_def)

lemma length_upload_all: "length (fst (upload_all rt calls s)) = length calls"
  by (induction calls arbitrary: s) (simp_all add: upload_all_Cons)

lemma uploaded_calls: "u \<in> set (uploaded calls results) \<Longrightarrow> fst u \<in> set calls"
  by (induction calls results rule: uploaded.induct) auto

lemma upload_all_uploaded:
  "map (\<lambda>u. original_file_path (snd u)) (uploaded calls (fst (upload_all rt calls s)))
     = map (\<lambda>u. call_path (fst u)) (uploaded calls (fst (upload_all rt calls s)))
   \<and> distinct (map (\<lambda>u. job_id (snd u)) (uploaded calls (fst (upload_all rt calls s))))
   \<and> (\<forall>u\<in>set (uploaded calls (fst (upload_all rt calls s))).
         translation_jobs_id_seq (st_db s) < job_id (snd u))
   \<and> translation_jobs (st_db (snd (upload_all rt calls s))) =
       translation_jobs (st_db s) @ map snd (uploaded calls (fst (upload_all rt calls s)))"
proof (induction calls arbitrary: s)
  case Nil
  show ?case by simp
next
  case (Cons c calls)
  obtain date_now randomId db_now input where c: "c = (date_now, randomId, db_now, input)"
    by (cases c)
  let ?s' = "snd (uploadVideo rt date_now randomId db_now input s)"
  note IH = Cons.IH [of ?s']
  from uploadVideo_outcome [of rt date_now randomId db_now input s] show ?case
  proof
    assume "fst (uploadVideo rt date_now randomId db_now input s)
          \<in> {Inl FileSystemError, Inl DatabaseError}
        \<and> st_db ?s' = st_db s"
    then obtain e where "fst (uploadVideo rt date_now randomId db_now input s) = Inl e"
      and "st_db ?s' = st_db s"
      by auto
    with IH show ?thesis
      by (simp add: c upload_all_Cons)
  next
    assume "\<exists>job. fst (uploadVideo rt date_now randomId db_now input s) = Inr job
      \<and> st_db ?s' =
          \<lparr>translation_jobs = translation_jobs (st_db s) @ [job],
           translation_jobs_id_seq = translation_jobs_id_seq (st_db s) + 1\<rparr>
      \<and> job_id job = translation_jobs_id_seq (st_db s) + 1
      \<and> original_file_path job = upload_path date_now randomId (v_filename input)"
    then obtain job where
      r: "fst (uploadVideo rt date_now randomId db_now input s) = Inr job"
      and d: "st_db ?s' =
          \<lparr>translation_jobs = translation_jobs (st_db s) @ [job],
           translation_jobs_id_seq = translation_jobs_id_seq (st_db s) + 1\<rparr>"
      and i: "job_id job = translation_jobs_id_seq (st_db s) + 1"
      and p: "original_file_path job = upload_path date_now randomId (v_filename input)"
      by blast
    from IH show ?thesis
      by (auto simp: c upload_all_Cons r d i p call_path_def)
  qed
qed

lemma call_path_eq_iff:
  assumes "call_filename x = f" and "call_filename y = f"
  shows "call_path x = call_path y \<longleftrightarrow> call_stamp x = call_stamp y"
  using assms
  by (cases x; cases y) (auto simp: call_filename_def call_path_def call_stamp_def upload_path_eq_iff)

lemma distinct_paths_iff:
  assumes "\<forall>c\<in>set calls. call_filename c = f"
  shows "distinct (map call_path calls) = distinct (map call_stamp calls)"
proof -
  have "inj_on call_path (set calls) = inj_on call_stamp (set calls)"
    unfolding inj_on_def using assms call_path_eq_iff by blast
  then show ?thesis by (simp add: distinct_map)
qed

lemma distinct_uploaded_paths_iff:
  assumes "\<forall>u\<in>set ups. call_filename (fst u) = f"
  shows "distinct (map (\<lambda>u. call_path (fst u)) ups)
       = distinct (map (\<lambda>u. call_stamp (fst u)) ups)"
proof -
  from assms have "\<forall>c\<in>set (map fst ups). call_filename c = f"
    by simp
  from distinct_paths_iff [OF this] show ?thesis
    by (simp add: comp_def)
qed

lemma number_toString_sample: "number_toString 1700000000000 = ''1700000000000''"
  by (simp add: number_toString.simps digit_char_def char_of_def bit_0)

lemma number_toString_sample_next: "number_toString 1700000000001 = ''1700000000001''"
  by (simp add: number_toString.simps digit_char_def char_of_def bit_0)

lemmas upload_eval =
  upload_all_Cons uploadVideo_def sample_runtime_def dirname_def upload_path_def
  number_toString_sample number_toString_sample_next text_accepted_def
  insert_returning_def insert_accepted_def nullable_text_accepted_def
  empty_server_def empty_database_def same_name_upload_def Let_def

lemma colliding_results:
  "\<exists>j1 j2. fst (upload_all sample_runtime colliding_uploads empty_server) = [Inr j1, Inr j2]
     \<and> original_file_path j1 = ''/uploads/videos/1700000000000_k3j9xa_same-name.mp4''
     \<and> original_file_path j2 = ''/uploads/videos/1700000000000_k3j9xa_same-name.mp4''"
  by (simp add: colliding_uploads_def upload_eval)

lemma slash_results:
  "upload_all sample_runtime slash_uploads empty_server
     = ([Inl FileSystemError, Inl FileSystemError], empty_server)"
  by (simp add: slash_uploads_def upload_eval)

lemma three_results:
  "\<exists>j1 j2 j3. fst (upload_all sample_runtime three_uploads empty_server)
     = [Inr j1, Inr j2, Inr j3]"
  by (simp add: three_uploads_def upload_eval)

text \<open>
  Claim C5, as stated, fails. Two uploads of \<^verbatim>\<open>same-name.mp4\<close> that read the same
  \<^verbatim>\<open>Date.now()\<close> and draw the same token both succeed and are given the same path, so
  two uploads produce one path. And two uploads of \<^verbatim>\<open>clip/\<close> with different tokens both
  fail when the file is written, so two uploads produce no path and no job.
\<close>

theorem colliding_uploads_counterexample:
  "length colliding_uploads = 2
   \<and> map call_filename colliding_uploads = [''same-name.mp4'', ''same-name.mp4'']
   \<and> map (\<lambda>u. original_file_path (snd u))
         (uploaded colliding_uploads
            (fst (upload_all sample_runtime colliding_uploads empty_server)))
       = [''/uploads/videos/1700000000000_k3j9xa_same-name.mp4'',
          ''/uploads/videos/1700000000000_k3j9xa_same-name.mp4'']
   \<and> card (set (map (\<lambda>u. original_file_path (snd u))
         (uploaded colliding_uploads
            (fst (upload_all sample_runtime colliding_uploads empty_server))))) = 1
   \<and> length slash_uploads = 2
   \<and> map call_filename slash_uploads = [''clip/'', ''clip/'']
   \<and> fst (upload_all sample_runtime slash_uploads empty_server)
       = [Inl FileSystemError, Inl FileSystemError]
   \<and> translation_jobs (st_db (snd (upload_all sample_runtime slash_uploads empty_server))) = []"
proof -
  have calls: "length colliding_uploads = 2
     \<and> map call_filename colliding_uploads = [''same-name.mp4'', ''same-name.mp4'']"
    by (simp add: colliding_uploads_def call_filename_def same_name_upload_def)
  from colliding_results obtain j1 j2 where
    r: "fst (upload_all sample_runtime colliding_uploads empty_server) = [Inr j1, Inr j2]"
    and p1: "original_file_path j1 = ''/uploads/videos/1700000000000_k3j9xa_same-name.mp4''"
    and p2: "original_file_path j2 = ''/uploads/videos/1700000000000_k3j9xa_same-name.mp4''"
    by blast
  have paths: "map (\<lambda>u. original_file_path (snd u))
         (uploaded colliding_uploads
            (fst (upload_all sample_runtime colliding_uploads empty_server)))
       = [''/uploads/videos/1700000000000_k3j9xa_same-name.mp4'',
          ''/uploads/videos/1700000000000_k3j9xa_same-name.mp4'']"
    by (simp only: r) (simp add: colliding_uploads_def p1 p2)
  have one: "card (set (map (\<lambda>u. original_file_path (snd u))
         (uploaded colliding_uploads
            (fst (upload_all sample_runtime colliding_uploads empty_server))))) = 1"
    unfolding paths by simp
  have slash: "length slash_uploads = 2
     \<and> map call_filename slash_uploads = [''clip/'', ''clip/'']"
    by (simp add: slash_uploads_def call_filename_def)
  have none: "fst (upload_all sample_runtime slash_uploads empty_server)
       = [Inl FileSystemError, Inl FileSystemError]
     \<and> translation_jobs (st_db (snd (upload_all sample_runtime slash_uploads empty_server))) = []"
    by (simp only: slash_results) (simp add: empty_server_def empty_database_def)
  from calls paths one slash none show ?thesis
    by (intro conjI) (simp_all only:)
qed

text \<open>
  Claim C5, amended. Take any run of uploads that all carry the same filename, in any
  runtime, and among them the uploads that succeed. Every upload has a result, and one
  that fails stores no job. The jobs of the uploads that succeed have pairwise
  different ids and are the rows appended to the table, every such job's path is the
  one built from its call's timestamp and token, and the number of different paths
  equals the number of successful uploads exactly when no two successful calls share
  both the timestamp and the token.
\<close>

theorem same_filename_uploads:
  assumes "\<forall>c\<in>set calls. call_filename c = f"
  shows "length (fst (upload_all rt calls s)) = length calls
       \<and> distinct (map (\<lambda>u. job_id (snd u)) (uploaded calls (fst (upload_all rt calls s))))
       \<and> map (\<lambda>u. original_file_path (snd u)) (uploaded calls (fst (upload_all rt calls s)))
           = map (\<lambda>u. call_path (fst u)) (uploaded calls (fst (upload_all rt calls s)))
       \<and> (card (set (map (\<lambda>u. original_file_path (snd u))
                     (uploaded calls (fst (upload_all rt calls s)))))
            = length (uploaded calls (fst (upload_all rt calls s))))
           = distinct (map (\<lambda>u. call_stamp (fst u)) (uploaded calls (fst (upload_all rt calls s))))
       \<and> translation_jobs (st_db (snd (upload_all rt calls s))) =
           translation_jobs (st_db s) @ map snd (uploaded calls (fst (upload_all rt calls s)))"
proof -
  let ?ups = "uploaded calls (fst (upload_all rt calls s))"
  let ?paths = "map (\<lambda>u. original_file_path (snd u)) ?ups"
  note all = upload_all_uploaded [of calls rt s]
  from all have paths: "?paths = map (\<lambda>u. call_path (fst u)) ?ups"
    by (rule conjunct1)
  from all have ids: "distinct (map (\<lambda>u. job_id (snd u)) ?ups)"
    by blast
  from all have rows: "translation_jobs (st_db (snd (upload_all rt calls s))) =
           translation_jobs (st_db s) @ map snd ?ups"
    by blast
  have same: "\<forall>u\<in>set ?ups. call_filename (fst u) = f"
    using assms by (auto dest: uploaded_calls)
  have "(card (set ?paths) = length ?paths) = distinct ?paths"
    using card_distinct [of ?paths] distinct_card [of ?paths] by auto
  then have card: "(card (set ?paths) = length ?ups)
      = distinct (map (\<lambda>u. call_stamp (fst u)) ?ups)"
    using distinct_uploaded_paths_iff [OF same] by (simp add: paths)
  from length_upload_all [of rt calls s] ids paths card rows show ?thesis
    by (intro conjI)
qed

lemma three_uploads_filename: "\<forall>c\<in>set three_uploads. call_filename c = ''same-name.mp4''"
  by (simp add: three_uploads_def call_filename_def same_name_upload_def)

theorem same_filename_uploads_witness:
  "length (uploaded three_uploads (fst (upload_all sample_runtime three_uploads empty_server))) = 3
   \<and> distinct (map (\<lambda>u. job_id (snd u))
         (uploaded three_uploads (fst (upload_all sample_runtime three_uploads empty_server))))
   \<and> card (set (map (\<lambda>u. original_file_path (snd u))
         (uploaded three_uploads (fst (upload_all sample_runtime three_uploads empty_server)))))
       = 3"
proof -
  let ?ups = "uploaded three_uploads (fst (upload_all sample_runtime three_uploads empty_server))"
  from three_results obtain j1 j2 j3 where
    r: "fst (upload_all sample_runtime three_uploads empty_server) = [Inr j1, Inr j2, Inr j3]"
    by blast
  have calls: "map fst ?ups = three_uploads"
    by (simp only: r) (simp add: three_uploads_def)
  then have n: "length ?ups = 3"
    by (metis length_map three_uploads_def length_Cons list.size(3) numeral_3_eq_3)
  have "map (\<lambda>u. call_stamp (fst u)) ?ups = map call_stamp (map fst ?ups)"
    by (simp add: comp_def)
  then have stamps: "distinct (map (\<lambda>u. call_stamp (fst u)) ?ups)"
    by (simp only: calls) (simp add: three_uploads_def call_stamp_def)
  from same_filename_uploads [OF three_uploads_filename, of sample_runtime empty_server] stamps
  show ?thesis
    unfolding n by blast
qed

subsection \<open>Listing\<close>

lemma mset_insert_newest_first: "mset (insert_newest_first x ys) = add_mset x (mset ys)"
  by (induction ys) simp_all

lemma set_insert_newest_first: "set (insert_newest_first x ys) = insert x (set ys)"
  by (induction ys) auto

lemma newest_first_insert:
  "newest_first ys \<Longrightarrow> newest_first (insert_newest_first x ys)"
  unfolding newest_first_def
  by (induction ys) (auto simp: set_insert_newest_first)

lemma mset_foldr_insert: "mset (foldr insert_newest_first js []) = mset js"
  by (induction js) (simp_all add: mset_insert_newest_first)

lemma newest_first_foldr_insert: "newest_first (foldr insert_newest_first js [])"
  by (induction js) (simp_all add: newest_first_insert, simp add: newest_first_def)

lemma getTranslationJobs_spec_listAll: "getTranslationJobs d (spec_listAll d)"
  by (simp add: getTranslationJobs_def spec_listAll_def mset_foldr_insert
        newest_first_foldr_insert)

text \<open>Rows with the same timestamp keep their insertion order in \<open>spec_listAll\<close>.\<close>

lemma filter_insert_newest_first:
  "newest_first ys \<Longrightarrow>
   filter (\<lambda>j. created_at j = t) (insert_newest_first x ys) =
     (if created_at x = t then x # filter (\<lambda>j. created_at j = t) ys
      else filter (\<lambda>j. created_at j = t) ys)"
  unfolding newest_first_def
  by (induction ys) auto

lemma filter_foldr_insert:
  "filter (\<lambda>j. created_at j = t) (foldr insert_newest_first js []) =
   filter (\<lambda>j. created_at j = t) js"
  by (induction js) (simp_all add: filter_insert_newest_first newest_first_foldr_insert)

lemma spec_listAll_stable:
  "filter (\<lambda>j. created_at j = t) (spec_listAll d) =
   filter (\<lambda>j. created_at j = t) (translation_jobs d)"
  by (simp add: spec_listAll_def filter_foldr_insert)

lemma listing_timestamps:
  assumes "getTranslationJobs d jobs"
  shows "map created_at jobs = rev (sort (map created_at (translation_jobs d)))"
proof -
  from assms have m: "mset jobs = mset (translation_jobs d)" and s: "newest_first jobs"
    by (simp_all add: getTranslationJobs_def)
  from s have "sorted (rev (map created_at jobs))"
    by (simp add: newest_first_def sorted_wrt_rev sorted_wrt_map flip: rev_map)
  moreover from m have "mset (rev (map created_at jobs)) = mset (map created_at (translation_jobs d))"
    by (metis mset_map mset_rev)
  ultimately have "sort (map created_at (translation_jobs d)) = rev (map created_at jobs)"
    by (rule properties_for_sort [rotated])
  then show ?thesis by simp
qed

lemma listing_unique:
  assumes "getTranslationJobs d jobs" and "getTranslationJobs d jobs'"
    and "distinct (map created_at (translation_jobs d))"
  shows "jobs = jobs'"
proof -
  have keys: "map created_at jobs = map created_at jobs'"
    using assms(1,2) by (simp add: listing_timestamps)
  have "set jobs = set (translation_jobs d)" and "set jobs' = set (translation_jobs d)"
    using assms(1,2) by (auto simp: getTranslationJobs_def dest: mset_eq_setD)
  moreover from assms(3) have "inj_on created_at (set (translation_jobs d))"
    by (simp add: distinct_map)
  ultimately have "inj_on created_at (set jobs \<union> set jobs')"
    by simp
  from inj_on_map_eq_map [OF this] keys show ?thesis by simp
qed

text \<open>
  Claim C4, amended. For every state of the store the query has an answer (the stable
  listing \<open>spec_listAll\<close> is one). Every answer holds the rows of the table, each once,
  with \<^verbatim>\<open>created_at\<close> never increasing, so the sequence of timestamps is the same in
  every answer. When no two rows share \<^verbatim>\<open>created_at\<close> the answer is unique and is
  \<open>spec_listAll\<close>; among rows that share it the query fixes no order. For the empty
  store the only answer is the empty sequence.
\<close>

theorem listing_newest_first:
  "getTranslationJobs d (spec_listAll d)
   \<and> (getTranslationJobs d jobs \<longrightarrow>
         mset jobs = mset (translation_jobs d)
       \<and> length jobs = length (translation_jobs d)
       \<and> sorted_wrt (\<lambda>a b. created_at b \<le> created_at a) jobs
       \<and> map created_at jobs = rev (sort (map created_at (translation_jobs d))))
   \<and> (getTranslationJobs d jobs \<and> distinct (map created_at (translation_jobs d))
         \<longrightarrow> jobs = spec_listAll d)
   \<and> (translation_jobs d = [] \<longrightarrow> getTranslationJobs d jobs = (jobs = []))"
proof (intro conjI impI)
  show "getTranslationJobs d (spec_listAll d)"
    by (rule getTranslationJobs_spec_listAll)
next
  assume a: "getTranslationJobs d jobs"
  then show "mset jobs = mset (translation_jobs d)"
    by (simp add: getTranslationJobs_def)
  then show "length jobs = length (translation_jobs d)"
    by (rule mset_eq_length)
  from a show "sorted_wrt (\<lambda>a b. created_at b \<le> created_at a) jobs"
    by (simp add: getTranslationJobs_def newest_first_def)
  from a show "map created_at jobs = rev (sort (map created_at (translation_jobs d)))"
    by (rule listing_timestamps)
next
  assume "getTranslationJobs d jobs \<and> distinct (map created_at (translation_jobs d))"
  then show "jobs = spec_listAll d"
    using listing_unique [OF _ getTranslationJobs_spec_listAll] by blast
next
  assume "translation_jobs d = []"
  then show "getTranslationJobs d jobs = (jobs = [])"
    by (auto simp: getTranslationJobs_def newest_first_def)
qed

lemma tie_database_rows: "translation_jobs tie_database = [clip_job 5, second_job]"
  by (simp add: tie_database_def clip_database_eq second_job_def second_input_def
        clip_job_def handler_defs)

lemma tie_timestamps: "created_at (clip_job 5) = 5" "created_at second_job = 5"
  by (simp_all add: clip_job_def second_job_def)

lemma tie_ids: "job_id (clip_job 5) = 1" "job_id second_job = 2"
  by (simp_all add: clip_job_def second_job_def)

lemma tie_database_reversed:
  "getTranslationJobs tie_database [second_job, clip_job 5]"
  by (simp add: getTranslationJobs_def newest_first_def tie_database_rows tie_timestamps)

text \<open>
  Claim C4, as stated, fails where it fixes the order of ties. The two rows below were
  inserted in the order \<open>clip_job 5\<close>, \<open>second_job\<close> and have the same \<^verbatim>\<open>created_at\<close>; the
  sequence with \<open>second_job\<close> first satisfies the query's \<^verbatim>\<open>ORDER BY\<close> and is not the
  listing in insertion order.
\<close>

theorem tie_order_counterexample:
  "translation_jobs tie_database = [clip_job 5, second_job]
   \<and> created_at (clip_job 5) = created_at second_job
   \<and> spec_listAll tie_database = [clip_job 5, second_job]
   \<and> getTranslationJobs tie_database [second_job, clip_job 5]
   \<and> [second_job, clip_job 5] \<noteq> spec_listAll tie_database"
proof -
  have ne: "second_job \<noteq> clip_job 5"
    using tie_ids by auto
  have spec: "spec_listAll tie_database = [clip_job 5, second_job]"
    by (simp add: spec_listAll_def tie_database_rows tie_timestamps)
  with ne tie_database_reversed show ?thesis
    by (simp add: tie_database_rows tie_timestamps)
qed

theorem listing_newest_first_witness:
  "getTranslationJobs tie_database (spec_listAll tie_database)
   \<and> length [second_job, clip_job 5] = length (translation_jobs tie_database)
   \<and> map created_at [second_job, clip_job 5]
       = rev (sort (map created_at (translation_jobs tie_database)))
   \<and> [clip_job 5] = spec_listAll (clip_database 5)
   \<and> getTranslationJobs empty_database []"
proof -
  have rows: "translation_jobs (clip_database 5) = [clip_job 5]"
    by (simp add: clip_database_eq)
  have one: "getTranslationJobs (clip_database 5) [clip_job 5]"
    by (simp add: getTranslationJobs_def newest_first_def rows)
  have dist: "distinct (map created_at (translation_jobs (clip_database 5)))"
    by (simp add: rows)
  have none: "translation_jobs empty_database = []"
    by (simp add: empty_database_def)
  from listing_newest_first [of tie_database "[second_job, clip_job 5]"]
    listing_newest_first [of "clip_database 5" "[clip_job 5]"]
    listing_newest_first [of empty_database "[]"]
    tie_database_reversed one dist none
  show ?thesis by blast
qed

end
